theory Spec2Isabelle
  imports Complex_Main
begin

section \<open>Data model\<close>

text \<open>
  The coupon engine of \<^verbatim>\<open>src/services/couponService.js\<close>, together with the
  predicates of the coupon model (\<^verbatim>\<open>models/coupon.js\<close>) it calls.

  JavaScript numbers are modelled as rationals: arithmetic is exact, and there is no
  \<^verbatim>\<open>NaN\<close> or \<^verbatim>\<open>Infinity\<close>. The only division by a value that is not a literal is
  \<^verbatim>\<open>cartQuantity / buyReq.quantity\<close>. The coupon schema gives buy quantities
  \<^verbatim>\<open>min: 1\<close>; for a buy quantity of 0, which it excludes, JavaScript yields
  \<^verbatim>\<open>Infinity\<close> or \<^verbatim>\<open>NaN\<close> where the quotient of the model is 0.
  The current time, read by the source through \<^verbatim>\<open>new Date()\<close>, is the explicit
  parameter \<open>now\<close>.
\<close>

datatype coupon_type = CART_WISE | PRODUCT_WISE | BXGY | OTHER string

datatype discount_type = PERCENTAGE | FIXED_AMOUNT

text \<open>An entry of \<^verbatim>\<open>buyProducts\<close> or \<^verbatim>\<open>getProducts\<close>.\<close>

record product_req =
  req_productId :: nat
  req_quantity :: rat

text \<open>
  A coupon document. An optional field that is \<^verbatim>\<open>undefined\<close> or \<^verbatim>\<open>null\<close>
  is \<open>None\<close>. The field \<open>discountType\<close> is accepted by the request validator;
  no function of the service reads it.
\<close>

record coupon =
  coupon_id :: nat
  code :: string
  ctype :: coupon_type
  discountValue :: rat
  discountType :: "discount_type option"
  minCartValue :: "rat option"
  maxDiscount :: "rat option"
  applicableProducts :: "nat list option"
  buyProducts :: "product_req list option"
  getProducts :: "product_req list option"
  repetitionLimit :: "rat option"
  expirationDate :: "int option"
  isActive :: bool
  usageLimit :: "rat option"
  currentUsage :: rat

text \<open>
  A cart line. The three annotation fields are absent on a line of a request; the cart
  mutator writes them on its copy.
\<close>

record item =
  productId :: nat
  quantity :: rat
  price :: rat
  item_totalDiscount :: "rat option"
  discountedPrice :: "rat option"
  freeQuantity :: "rat option"

record applied_coupon =
  ac_couponId :: nat
  ac_code :: string
  ac_type :: coupon_type
  ac_discountValue :: rat

text \<open>A cart object; \<open>items = None\<close> is a cart without an \<^verbatim>\<open>items\<close> property.\<close>

record cart =
  items :: "item list option"
  totalPrice :: "rat option"
  totalDiscount :: "rat option"
  finalPrice :: "rat option"
  appliedCoupon :: "applied_coupon option"

text \<open>
  A message is a string built from literals and interpolated numbers; the numbers are
  kept as numbers.
\<close>

datatype part = Txt string | Num rat

type_synonym msg = "part list"

datatype js_error = TypeError | Error msg

text \<open>The objects \<^verbatim>\<open>isCouponApplicable\<close> returns, one constructor for each shape.\<close>

datatype applicability =
    NotApplicable msg
  | CartWiseApplicable rat
  | ProductWiseApplicable "item list" rat
  | BxGyApplicable rat "nat \<Rightarrow> rat option"

fun applicable :: "applicability \<Rightarrow> bool" where
  "applicable (NotApplicable r) = False"
| "applicable (CartWiseApplicable t) = True"
| "applicable (ProductWiseApplicable its t) = True"
| "applicable (BxGyApplicable n m) = True"

fun app_reason :: "applicability \<Rightarrow> msg option" where
  "app_reason (NotApplicable r) = Some r"
| "app_reason (CartWiseApplicable t) = None"
| "app_reason (ProductWiseApplicable its t) = None"
| "app_reason (BxGyApplicable n m) = None"

fun maxApplications :: "applicability \<Rightarrow> rat option" where
  "maxApplications (BxGyApplicable n m) = Some n"
| "maxApplications (NotApplicable r) = None"
| "maxApplications (CartWiseApplicable t) = None"
| "maxApplications (ProductWiseApplicable its t) = None"

record item_discount =
  id_productId :: nat
  id_quantity :: rat
  id_itemDiscount :: rat

record free_item =
  fi_productId :: nat
  fi_freeQuantity :: rat
  fi_itemDiscount :: rat
  fi_note :: "string option"

text \<open>The object \<^verbatim>\<open>calculateDiscount\<close> returns; a property it lacks is \<open>None\<close>.\<close>

record discount_result =
  discount :: rat
  dr_applicable :: "bool option"
  reason :: "msg option"
  dr_cartTotal :: "rat option"
  dr_applicableTotal :: "rat option"
  itemDiscounts :: "item_discount list option"
  dr_maxApplications :: "rat option"
  freeItems :: "free_item list option"
  dr_discountType :: "string option"

section \<open>The coupon model's predicates\<close>

text \<open>The truth value JavaScript gives an optional number: absent and zero are false.\<close>

definition truthy :: "rat option \<Rightarrow> bool" where
  "truthy v = (case v of None \<Rightarrow> False | Some x \<Rightarrow> x \<noteq> 0)"

definition isExpired :: "int \<Rightarrow> coupon \<Rightarrow> bool" where
  "isExpired now c = (case expirationDate c of None \<Rightarrow> False | Some d \<Rightarrow> now > d)"

definition isUsageLimitReached :: "coupon \<Rightarrow> bool" where
  "isUsageLimitReached c =
     (case usageLimit c of
        None \<Rightarrow> False
      | Some l \<Rightarrow> if l = 0 then False else currentUsage c \<ge> l)"

definition isApplicable :: "int \<Rightarrow> coupon \<Rightarrow> bool" where
  "isApplicable now c = (isActive c \<and> \<not> isExpired now c \<and> \<not> isUsageLimitReached c)"

section \<open>Eligibility\<close>

definition calculateCartTotal :: "cart option \<Rightarrow> rat" where
  "calculateCartTotal cart =
     (case cart of
        None \<Rightarrow> 0
      | Some c \<Rightarrow>
          (case items c of
             None \<Rightarrow> 0
           | Some its \<Rightarrow> foldl (\<lambda>total item. total + price item * quantity item) 0 its))"

text \<open>
  Reading \<^verbatim>\<open>cart.items\<close> to call a method of it: a \<^verbatim>\<open>TypeError\<close> when the cart
  is \<^verbatim>\<open>null\<close> or has no \<^verbatim>\<open>items\<close>.
\<close>

definition cart_items :: "cart option \<Rightarrow> js_error + item list" where
  "cart_items cart =
     (case cart of
        None \<Rightarrow> Inl TypeError
      | Some c \<Rightarrow> (case items c of None \<Rightarrow> Inl TypeError | Some its \<Rightarrow> Inr its))"

definition checkCartWiseApplicability :: "coupon \<Rightarrow> cart option \<Rightarrow> rat \<Rightarrow> applicability" where
  "checkCartWiseApplicability coupon cart cartTotal = CartWiseApplicable cartTotal"

definition checkProductWiseApplicability :: "coupon \<Rightarrow> cart option \<Rightarrow> js_error + applicability" where
  "checkProductWiseApplicability coupon cart =
     (case applicableProducts coupon of
        None \<Rightarrow> Inr (NotApplicable [Txt ''No applicable products defined''])
      | Some aps \<Rightarrow>
          if aps = [] then Inr (NotApplicable [Txt ''No applicable products defined''])
          else
            (case cart_items cart of
               Inl e \<Rightarrow> Inl e
             | Inr its \<Rightarrow>
                 (let applicableItems = filter (\<lambda>item. productId item \<in> set aps) its in
                  if applicableItems = []
                  then Inr (NotApplicable [Txt ''No applicable products in cart''])
                  else
                    Inr (ProductWiseApplicable applicableItems
                      (foldl (\<lambda>total item. total + price item * quantity item) 0
                         applicableItems)))))"

text \<open>The object \<^verbatim>\<open>cartProducts\<close>: each cart line assigns its product's entry.\<close>

definition build_cartProducts :: "item list \<Rightarrow> (nat \<Rightarrow> rat option)" where
  "build_cartProducts its = foldl (\<lambda>m item. m(productId item \<mapsto> quantity item)) Map.empty its"

text \<open>One round of the loop over \<^verbatim>\<open>coupon.buyProducts\<close>.\<close>

definition buy_step :: "(nat \<Rightarrow> rat option) \<Rightarrow> rat \<Rightarrow> product_req \<Rightarrow> rat" where
  "buy_step cartProducts maxApps buyReq =
     (let cartQuantity = (case cartProducts (req_productId buyReq) of None \<Rightarrow> 0 | Some q \<Rightarrow> q);
          possibleApplications = of_int \<lfloor>cartQuantity / req_quantity buyReq\<rfloor>
      in if maxApps = 0 \<or> possibleApplications < maxApps then possibleApplications
         else maxApps)"

definition checkBxGyApplicability :: "coupon \<Rightarrow> cart option \<Rightarrow> js_error + applicability" where
  "checkBxGyApplicability coupon cart =
     (case (buyProducts coupon, getProducts coupon) of
        (Some buys, Some gets) \<Rightarrow>
          if buys = [] \<or> gets = [] then Inr (NotApplicable [Txt ''Invalid BxGy configuration''])
          else
            (case cart_items cart of
               Inl e \<Rightarrow> Inl e
             | Inr its \<Rightarrow>
                 (let cartProducts = build_cartProducts its;
                      maxApps = foldl (buy_step cartProducts) 0 buys;
                      repLimit = (if truthy (repetitionLimit coupon)
                                  then the (repetitionLimit coupon) else 1);
                      maxApps = min maxApps repLimit
                  in if maxApps = 0
                     then Inr (NotApplicable [Txt ''Insufficient quantity of buy products''])
                     else Inr (BxGyApplicable maxApps cartProducts)))
      | _ \<Rightarrow> Inr (NotApplicable [Txt ''Invalid BxGy configuration'']))"

definition isCouponApplicable :: "int \<Rightarrow> coupon \<Rightarrow> cart option \<Rightarrow> js_error + applicability" where
  "isCouponApplicable now coupon cart =
     (if \<not> isApplicable now coupon
      then Inr (NotApplicable [Txt ''Coupon is not active, expired, or usage limit reached''])
      else
        (let cartTotal = calculateCartTotal cart in
         if truthy (minCartValue coupon) \<and> cartTotal < the (minCartValue coupon)
         then Inr (NotApplicable
                [Txt ''Cart total ('', Num cartTotal,
                 Txt '') is less than minimum required ('', Num (the (minCartValue coupon)),
                 Txt '')''])
         else
           (case ctype coupon of
              CART_WISE \<Rightarrow> Inr (checkCartWiseApplicability coupon cart cartTotal)
            | PRODUCT_WISE \<Rightarrow> checkProductWiseApplicability coupon cart
            | BXGY \<Rightarrow> checkBxGyApplicability coupon cart
            | OTHER s \<Rightarrow> Inr (NotApplicable [Txt ''Unknown coupon type'']))))"

section \<open>Discount calculation\<close>

definition calculateCartWiseDiscount :: "coupon \<Rightarrow> rat \<Rightarrow> discount_result" where
  "calculateCartWiseDiscount coupon cartTotal =
     (let d = (if discountValue coupon \<le> 100 then (cartTotal * discountValue coupon) / 100
               else discountValue coupon);
          d = (if truthy (maxDiscount coupon) \<and> d > the (maxDiscount coupon)
               then the (maxDiscount coupon) else d);
          d = min d cartTotal
      in \<lparr>discount = d, dr_applicable = None, reason = None, dr_cartTotal = Some cartTotal,
          dr_applicableTotal = None, itemDiscounts = None, dr_maxApplications = None,
          freeItems = None,
          dr_discountType =
            Some (if discountValue coupon \<le> 100 then ''percentage'' else ''fixed'')\<rparr>)"

text \<open>The discount of one matched line, as the body of the loop computes it.\<close>

definition productItemDiscount :: "coupon \<Rightarrow> item \<Rightarrow> rat" where
  "productItemDiscount coupon item =
     (let d = (if discountValue coupon \<le> 100
               then (price item * quantity item * discountValue coupon) / 100
               else discountValue coupon * quantity item);
          d = (if truthy (maxDiscount coupon) then min d (the (maxDiscount coupon)) else d);
          itemTotal = price item * quantity item
      in min d itemTotal)"

text \<open>
  One round of the loop over \<^verbatim>\<open>applicability.applicableItems\<close>; the state is
  \<^verbatim>\<open>totalDiscount\<close> and the array \<^verbatim>\<open>itemDiscounts\<close>.
\<close>

definition product_step :: "coupon \<Rightarrow> rat \<times> item_discount list \<Rightarrow> item \<Rightarrow> rat \<times> item_discount list" where
  "product_step coupon st item =
     (let d = productItemDiscount coupon item
      in (fst st + d,
          snd st @ [\<lparr>id_productId = productId item, id_quantity = quantity item,
                     id_itemDiscount = d\<rparr>]))"

definition calculateProductWiseDiscount :: "coupon \<Rightarrow> item list \<Rightarrow> rat \<Rightarrow> discount_result" where
  "calculateProductWiseDiscount coupon applicableItems applicableTotal =
     (let st = foldl (product_step coupon) (0, []) applicableItems
      in \<lparr>discount = fst st, dr_applicable = None, reason = None, dr_cartTotal = None,
          dr_applicableTotal = Some applicableTotal, itemDiscounts = Some (snd st),
          dr_maxApplications = None, freeItems = None,
          dr_discountType =
            Some (if discountValue coupon \<le> 100 then ''percentage'' else ''fixed'')\<rparr>)"

text \<open>
  One round of the loop over \<^verbatim>\<open>coupon.getProducts\<close>; \<^verbatim>\<open>cart.items.find\<close>
  gives the first cart line of the product.
\<close>

definition bxgy_step :: "item list \<Rightarrow> rat \<Rightarrow> rat \<times> free_item list \<Rightarrow> product_req \<Rightarrow> rat \<times> free_item list" where
  "bxgy_step its maxApps st getReq =
     (case find (\<lambda>item. productId item = req_productId getReq) its of
        Some cartItem \<Rightarrow>
          (let freeQty = req_quantity getReq * maxApps;
               actualFreeQuantity = min freeQty (quantity cartItem);
               itemDiscount = price cartItem * actualFreeQuantity
           in (fst st + itemDiscount,
               snd st @ [\<lparr>fi_productId = req_productId getReq,
                          fi_freeQuantity = actualFreeQuantity,
                          fi_itemDiscount = itemDiscount, fi_note = None\<rparr>]))
      | None \<Rightarrow>
          (fst st,
           snd st @ [\<lparr>fi_productId = req_productId getReq,
                      fi_freeQuantity = req_quantity getReq * maxApps,
                      fi_itemDiscount = 0, fi_note = Some ''Item not in cart''\<rparr>]))"

definition calculateBxGyDiscount :: "coupon \<Rightarrow> cart option \<Rightarrow> rat \<Rightarrow> js_error + discount_result" where
  "calculateBxGyDiscount coupon cart maxApps =
     (case getProducts coupon of
        None \<Rightarrow> Inl TypeError
      | Some gets \<Rightarrow>
          if gets = [] then
            Inr \<lparr>discount = 0, dr_applicable = None, reason = None, dr_cartTotal = None,
                 dr_applicableTotal = None, itemDiscounts = None,
                 dr_maxApplications = Some maxApps, freeItems = Some [],
                 dr_discountType = Some ''free_items''\<rparr>
          else
            (case cart_items cart of
               Inl e \<Rightarrow> Inl e
             | Inr its \<Rightarrow>
                 (let st = foldl (bxgy_step its maxApps) (0, []) gets
                  in Inr \<lparr>discount = fst st, dr_applicable = None, reason = None,
                          dr_cartTotal = None, dr_applicableTotal = None, itemDiscounts = None,
                          dr_maxApplications = Some maxApps, freeItems = Some (snd st),
                          dr_discountType = Some ''free_items''\<rparr>)))"

text \<open>
  \<^verbatim>\<open>calculateDiscount\<close> switches on \<^verbatim>\<open>coupon.type\<close>, as
  \<^verbatim>\<open>isCouponApplicable\<close> did, so the applicability object has the shape of that type;
  the last case is for the other combinations, which by lemma
  \<open>isCouponApplicable_shape\<close> are never taken.
\<close>

definition calculateDiscount :: "int \<Rightarrow> coupon \<Rightarrow> cart option \<Rightarrow> js_error + discount_result" where
  "calculateDiscount now coupon cart =
     (case isCouponApplicable now coupon cart of
        Inl e \<Rightarrow> Inl e
      | Inr (NotApplicable r) \<Rightarrow>
          Inr \<lparr>discount = 0, dr_applicable = Some False, reason = Some r, dr_cartTotal = None,
               dr_applicableTotal = None, itemDiscounts = None, dr_maxApplications = None,
               freeItems = None, dr_discountType = None\<rparr>
      | Inr a \<Rightarrow>
          (case (ctype coupon, a) of
             (CART_WISE, CartWiseApplicable cartTotal) \<Rightarrow>
               Inr (calculateCartWiseDiscount coupon cartTotal)
           | (PRODUCT_WISE, ProductWiseApplicable its tot) \<Rightarrow>
               Inr (calculateProductWiseDiscount coupon its tot)
           | (BXGY, BxGyApplicable n m) \<Rightarrow> calculateBxGyDiscount coupon cart n
           | (OTHER s, _) \<Rightarrow>
               Inr \<lparr>discount = 0, dr_applicable = None,
                    reason = Some [Txt ''Unknown coupon type''], dr_cartTotal = None,
                    dr_applicableTotal = None, itemDiscounts = None,
                    dr_maxApplications = None, freeItems = None, dr_discountType = None\<rparr>
           | _ \<Rightarrow> Inl TypeError))"

section \<open>Applying a coupon to a cart\<close>

text \<open>
  \<^verbatim>\<open>const item = xs.find(p); if (item) { ... }\<close>: the body changes the first element
  that satisfies \<open>p\<close>, and nothing when there is none.
\<close>

fun update_first :: "('a \<Rightarrow> bool) \<Rightarrow> ('a \<Rightarrow> 'a) \<Rightarrow> 'a list \<Rightarrow> 'a list" where
  "update_first p f [] = []"
| "update_first p f (x # xs) = (if p x then f x # xs else x # update_first p f xs)"

definition add_item_discount :: "rat \<Rightarrow> item \<Rightarrow> item" where
  "add_item_discount d it =
     (let td = (case item_totalDiscount it of None \<Rightarrow> 0 | Some t \<Rightarrow> t) + d
      in it\<lparr>item_totalDiscount := Some td,
             discountedPrice := Some (price it * quantity it - td)\<rparr>)"

definition apply_itemDiscount :: "item list \<Rightarrow> item_discount \<Rightarrow> item list" where
  "apply_itemDiscount its itemDiscount =
     update_first (\<lambda>i. productId i = id_productId itemDiscount)
       (add_item_discount (id_itemDiscount itemDiscount)) its"

definition apply_freeItem :: "item list \<Rightarrow> free_item \<Rightarrow> item list" where
  "apply_freeItem its freeItem =
     (if fi_itemDiscount freeItem > 0
      then update_first (\<lambda>i. productId i = fi_productId freeItem)
             (\<lambda>it. (add_item_discount (fi_itemDiscount freeItem) it)
                     \<lparr>freeQuantity := Some (fi_freeQuantity freeItem)\<rparr>) its
      else its)"

text \<open>
  A \<^verbatim>\<open>forEach\<close> whose body reads \<^verbatim>\<open>updatedCart.items\<close>: with no element the
  items are not read.
\<close>

definition annotate_items :: "(item list \<Rightarrow> 'e \<Rightarrow> item list) \<Rightarrow> 'e list \<Rightarrow> item list option \<Rightarrow> js_error + item list option" where
  "annotate_items step es its =
     (if es = [] then Inr its
      else (case its of None \<Rightarrow> Inl TypeError | Some l \<Rightarrow> Inr (Some (foldl step l es))))"

definition set_totals :: "rat \<Rightarrow> rat \<Rightarrow> cart \<Rightarrow> cart" where
  "set_totals cartTotal d c =
     c\<lparr>totalPrice := Some cartTotal, totalDiscount := Some d,
       finalPrice := Some (cartTotal - d)\<rparr>"

definition stamp :: "coupon \<Rightarrow> rat \<Rightarrow> cart \<Rightarrow> cart" where
  "stamp coupon d c =
     c\<lparr>appliedCoupon :=
         Some \<lparr>ac_couponId = coupon_id coupon, ac_code = code coupon, ac_type = ctype coupon,
               ac_discountValue = d\<rparr>\<rparr>"

text \<open>
  The copy \<^verbatim>\<open>JSON.parse(JSON.stringify(cart))\<close> of a cart value is that value; the
  copy of \<^verbatim>\<open>null\<close> is \<^verbatim>\<open>null\<close>, and writing a property of it is a
  \<^verbatim>\<open>TypeError\<close>. A reason, where a result has one, is a string that is not
  empty, so \<^verbatim>\<open>discountResult.reason || 'Invalid coupon'\<close> is that reason.
\<close>

definition applyCouponToCart :: "int \<Rightarrow> coupon \<Rightarrow> cart option \<Rightarrow> js_error + (cart \<times> discount_result)" where
  "applyCouponToCart now coupon cart =
     (case calculateDiscount now coupon cart of
        Inl e \<Rightarrow> Inl e
      | Inr discountResult \<Rightarrow>
          if discount discountResult = 0
          then Inl (Error (Txt ''Cannot apply coupon: '' #
                   (case reason discountResult of
                      None \<Rightarrow> [Txt ''Invalid coupon'']
                    | Some r \<Rightarrow> r)))
          else
            (case cart of
               None \<Rightarrow> Inl TypeError
             | Some updatedCart \<Rightarrow>
                 (let cartTotal = calculateCartTotal cart;
                      d = discount discountResult
                  in case ctype coupon of
                       CART_WISE \<Rightarrow>
                         Inr (stamp coupon d (set_totals cartTotal d updatedCart),
                              discountResult)
                     | PRODUCT_WISE \<Rightarrow>
                         (case itemDiscounts discountResult of
                            None \<Rightarrow> Inl TypeError
                          | Some ids \<Rightarrow>
                              (case annotate_items apply_itemDiscount ids (items updatedCart) of
                                 Inl e \<Rightarrow> Inl e
                               | Inr its \<Rightarrow>
                                   Inr (stamp coupon d
                                          (set_totals cartTotal d (updatedCart\<lparr>items := its\<rparr>)),
                                        discountResult)))
                     | BXGY \<Rightarrow>
                         (case freeItems discountResult of
                            None \<Rightarrow> Inl TypeError
                          | Some fis \<Rightarrow>
                              (case annotate_items apply_freeItem fis (items updatedCart) of
                                 Inl e \<Rightarrow> Inl e
                               | Inr its \<Rightarrow>
                                   Inr (stamp coupon d
                                          (set_totals cartTotal d (updatedCart\<lparr>items := its\<rparr>)),
                                        discountResult)))
                     | OTHER s \<Rightarrow> Inr (stamp coupon d updatedCart, discountResult))))"

section \<open>Ranking the applicable coupons\<close>

record applicable_coupon =
  ap_couponId :: nat
  ap_code :: string
  ap_type :: coupon_type
  ap_discount :: rat
  ap_details :: discount_result

definition entry_of :: "coupon \<Rightarrow> discount_result \<Rightarrow> applicable_coupon" where
  "entry_of coupon discountResult =
     \<lparr>ap_couponId = coupon_id coupon, ap_code = code coupon, ap_type = ctype coupon,
      ap_discount = discount discountResult, ap_details = discountResult\<rparr>"

text \<open>The loop over the coupons the query returned; an exception ends it.\<close>

fun collect_applicable :: "int \<Rightarrow> cart option \<Rightarrow> coupon list \<Rightarrow> js_error + applicable_coupon list" where
  "collect_applicable now cart [] = Inr []"
| "collect_applicable now cart (coupon # coupons) =
     (case calculateDiscount now coupon cart of
        Inl e \<Rightarrow> Inl e
      | Inr discountResult \<Rightarrow>
          (case collect_applicable now cart coupons of
             Inl e \<Rightarrow> Inl e
           | Inr rest \<Rightarrow>
               Inr (if discount discountResult > 0
                    then entry_of coupon discountResult # rest else rest)))"

text \<open>
  \<^verbatim>\<open>Array.prototype.sort\<close> with a comparator: a stable sort (ECMAScript 2019), here
  by insertion. An element goes before the first element the comparator does not put
  before it.
\<close>

fun insert_by :: "('a \<Rightarrow> 'a \<Rightarrow> rat) \<Rightarrow> 'a \<Rightarrow> 'a list \<Rightarrow> 'a list" where
  "insert_by cmp x [] = [x]"
| "insert_by cmp x (y # ys) = (if cmp x y \<le> 0 then x # y # ys else y # insert_by cmp x ys)"

definition array_sort :: "('a \<Rightarrow> 'a \<Rightarrow> rat) \<Rightarrow> 'a list \<Rightarrow> 'a list" where
  "array_sort cmp xs = foldr (insert_by cmp) xs []"

definition by_discount_desc :: "applicable_coupon \<Rightarrow> applicable_coupon \<Rightarrow> rat" where
  "by_discount_desc a b = ap_discount b - ap_discount a"

text \<open>The coupons are the result of the query, which the persistence layer answers.\<close>

definition getApplicableCoupons :: "int \<Rightarrow> cart option \<Rightarrow> coupon list \<Rightarrow> js_error + applicable_coupon list" where
  "getApplicableCoupons now cart coupons =
     (case collect_applicable now cart coupons of
        Inl e \<Rightarrow> Inl e
      | Inr applicableCoupons \<Rightarrow> Inr (array_sort by_discount_desc applicableCoupons))"

section \<open>Validated input\<close>

text \<open>
  The bounds the coupon schema of \<^verbatim>\<open>models/coupon.js\<close> puts on the numbers of a
  coupon document (\<^verbatim>\<open>min: 0\<close> and \<^verbatim>\<open>min: 1\<close>).
\<close>

definition schema_ok :: "coupon \<Rightarrow> bool" where
  "schema_ok c =
     (0 \<le> discountValue c
      \<and> (case minCartValue c of None \<Rightarrow> True | Some m \<Rightarrow> 0 \<le> m)
      \<and> (case maxDiscount c of None \<Rightarrow> True | Some m \<Rightarrow> 0 \<le> m)
      \<and> (case buyProducts c of None \<Rightarrow> True | Some bs \<Rightarrow> list_all (\<lambda>b. 1 \<le> req_quantity b) bs)
      \<and> (case getProducts c of None \<Rightarrow> True | Some gs \<Rightarrow> list_all (\<lambda>g. 1 \<le> req_quantity g) gs)
      \<and> (case repetitionLimit c of None \<Rightarrow> True | Some n \<Rightarrow> 1 \<le> n)
      \<and> (case usageLimit c of None \<Rightarrow> True | Some n \<Rightarrow> 1 \<le> n)
      \<and> 0 \<le> currentUsage c)"

text \<open>
  The cart schema of \<^verbatim>\<open>validateCart\<close>: a non-empty \<^verbatim>\<open>items\<close> array of lines
  with a positive product id, a positive integer quantity and a positive price.
\<close>

definition validateCart :: "cart \<Rightarrow> bool" where
  "validateCart c =
     (case items c of
        None \<Rightarrow> False
      | Some its \<Rightarrow>
          its \<noteq> []
          \<and> list_all (\<lambda>i. 0 < productId i
                        \<and> 0 < quantity i \<and> quantity i = of_int \<lfloor>quantity i\<rfloor>
                        \<and> 0 < price i) its)"

text \<open>
  A cart that is \<^verbatim>\<open>null\<close>, or has no \<^verbatim>\<open>items\<close> array.
\<close>

definition no_items :: "cart option \<Rightarrow> bool" where
  "no_items cart = (case cart of None \<Rightarrow> True | Some c \<Rightarrow> items c = None)"

section \<open>Reference formulas\<close>

text \<open>
  The sum of the subtotals of the cart lines whose product is one of the coupon's
  applicable products.
\<close>

definition matched_subtotal :: "coupon \<Rightarrow> cart \<Rightarrow> rat" where
  "matched_subtotal coupon c =
     sum_list (map (\<lambda>i. price i * quantity i)
       (filter (\<lambda>i. productId i \<in> set (case applicableProducts coupon of None \<Rightarrow> [] | Some aps \<Rightarrow> aps))
          (case items c of None \<Rightarrow> [] | Some its \<Rightarrow> its)))"

text \<open>
  The discount of one matched line as the specification words it: the choice between
  percentage and amount follows the coupon's \<open>discountType\<close>.
\<close>

definition spec_productItemDiscount :: "coupon \<Rightarrow> item \<Rightarrow> rat" where
  "spec_productItemDiscount coupon item =
     (let d = (if discountType coupon = Some PERCENTAGE
               then price item * quantity item * discountValue coupon / 100
               else discountValue coupon * quantity item);
          d = (case maxDiscount coupon of None \<Rightarrow> d | Some m \<Rightarrow> if m = 0 then d else min d m)
      in min d (price item * quantity item))"

text \<open>
  The quantity of a product in the cart, 0 when the cart has no line of it.
\<close>

definition cartQuantity :: "item list \<Rightarrow> nat \<Rightarrow> rat" where
  "cartQuantity its pid = (case build_cartProducts its pid of None \<Rightarrow> 0 | Some q \<Rightarrow> q)"

text \<open>
  The number of applications of a buy-and-get coupon as the specification words it: the
  least of the quotients over all buy requirements, then the repetition limit.
\<close>

definition spec_applications :: "item list \<Rightarrow> product_req list \<Rightarrow> rat \<Rightarrow> rat" where
  "spec_applications its buys repLimit =
     min repLimit
       (min_list (map (\<lambda>r. of_int \<lfloor>cartQuantity its (req_productId r) / req_quantity r\<rfloor>) buys))"

text \<open>
  The quantity of the last cart line of a product, 0 when the cart has no line of it.
\<close>

definition last_line_quantity :: "item list \<Rightarrow> nat \<Rightarrow> rat" where
  "last_line_quantity its pid =
     (case find (\<lambda>i. productId i = pid) (rev its) of None \<Rightarrow> 0 | Some i \<Rightarrow> quantity i)"

text \<open>
  The entries of the coupons whose computed discount is positive, in the order of the
  coupons.
\<close>

definition positive_entries :: "int \<Rightarrow> cart option \<Rightarrow> coupon list \<Rightarrow> applicable_coupon list" where
  "positive_entries now cart coupons =
     concat (map (\<lambda>c. case calculateDiscount now c cart of
                        Inl e \<Rightarrow> []
                      | Inr r \<Rightarrow> if discount r > 0 then [entry_of c r] else []) coupons)"

section \<open>The cart mutator on a store of objects\<close>

text \<open>
  For the question which objects \<^verbatim>\<open>applyCouponToCart\<close> writes, the objects live in
  a store: item objects, arrays of references to item objects, cart objects that refer
  to their \<^verbatim>\<open>items\<close> array, and coupon documents, each kind addressed by its index.
  \<^verbatim>\<open>JSON.parse(JSON.stringify(cart))\<close> allocates a new cart object, a new array and
  a new item object for every line. \<^verbatim>\<open>calculateDiscount\<close> assigns to no property of
  the cart, of a line or of the coupon, so it is the function of their values defined
  above.
\<close>

record cart_obj =
  co_items :: "nat option"
  co_totalPrice :: "rat option"
  co_totalDiscount :: "rat option"
  co_finalPrice :: "rat option"
  co_appliedCoupon :: "applied_coupon option"

record store =
  item_objs :: "item list"
  item_arrays :: "nat list list"
  cart_objs :: "cart_obj list"
  coupon_objs :: "coupon list"

text \<open>
  The values the references stand for.
\<close>

definition load_items :: "store \<Rightarrow> nat \<Rightarrow> item list" where
  "load_items s r = map (\<lambda>ia. item_objs s ! ia) (item_arrays s ! r)"

definition load_cart :: "store \<Rightarrow> nat \<Rightarrow> cart" where
  "load_cart s a =
     (let co = cart_objs s ! a
      in \<lparr>items = map_option (load_items s) (co_items co), totalPrice = co_totalPrice co,
          totalDiscount = co_totalDiscount co, finalPrice = co_finalPrice co,
          appliedCoupon = co_appliedCoupon co\<rparr>)"

text \<open>
  A cart reference whose object, array and lines are all in the store.
\<close>

definition cart_ref_ok :: "store \<Rightarrow> nat \<Rightarrow> bool" where
  "cart_ref_ok s a =
     (a < length (cart_objs s)
      \<and> (case co_items (cart_objs s ! a) of
            None \<Rightarrow> True
          | Some r \<Rightarrow> r < length (item_arrays s)
                      \<and> list_all (\<lambda>ia. ia < length (item_objs s)) (item_arrays s ! r)))"

definition json_copy :: "store \<Rightarrow> nat \<Rightarrow> store \<times> nat" where
  "json_copy s a =
     (let co = cart_objs s ! a
      in case co_items co of
           None \<Rightarrow> (s\<lparr>cart_objs := cart_objs s @ [co]\<rparr>, length (cart_objs s))
         | Some r \<Rightarrow>
             (let its = load_items s r; n = length (item_objs s)
              in (s\<lparr>item_objs := item_objs s @ its,
                    item_arrays := item_arrays s @ [[n ..< n + length its]],
                    cart_objs := cart_objs s @ [co\<lparr>co_items := Some (length (item_arrays s))\<rparr>]\<rparr>,
                  length (cart_objs s))))"

text \<open>
  \<^verbatim>\<open>const item = updatedCart.items.find(p); if (item) { ... }\<close> on the store: the
  item object of the first reference whose object satisfies \<open>p\<close> is overwritten.
\<close>

definition heap_update_first :: "(item \<Rightarrow> bool) \<Rightarrow> (item \<Rightarrow> item) \<Rightarrow> nat list \<Rightarrow> item list \<Rightarrow> item list" where
  "heap_update_first p f refs objs =
     (case find (\<lambda>ia. p (objs ! ia)) refs of
        None \<Rightarrow> objs
      | Some ia \<Rightarrow> objs[ia := f (objs ! ia)])"

definition st_apply_itemDiscount :: "nat \<Rightarrow> store \<Rightarrow> item_discount \<Rightarrow> store" where
  "st_apply_itemDiscount r s itemDiscount =
     s\<lparr>item_objs :=
         heap_update_first (\<lambda>i. productId i = id_productId itemDiscount)
           (add_item_discount (id_itemDiscount itemDiscount)) (item_arrays s ! r) (item_objs s)\<rparr>"

definition st_apply_freeItem :: "nat \<Rightarrow> store \<Rightarrow> free_item \<Rightarrow> store" where
  "st_apply_freeItem r s freeItem =
     (if fi_itemDiscount freeItem > 0
      then s\<lparr>item_objs :=
               heap_update_first (\<lambda>i. productId i = fi_productId freeItem)
                 (\<lambda>it. (add_item_discount (fi_itemDiscount freeItem) it)
                         \<lparr>freeQuantity := Some (fi_freeQuantity freeItem)\<rparr>)
                 (item_arrays s ! r) (item_objs s)\<rparr>
      else s)"

definition st_annotate_items :: "(nat \<Rightarrow> store \<Rightarrow> 'e \<Rightarrow> store) \<Rightarrow> 'e list \<Rightarrow> nat option \<Rightarrow> store \<Rightarrow> js_error + store" where
  "st_annotate_items step es ref s =
     (if es = [] then Inr s
      else (case ref of None \<Rightarrow> Inl TypeError | Some r \<Rightarrow> Inr (foldl (step r) s es)))"

definition st_set_totals :: "rat \<Rightarrow> rat \<Rightarrow> nat \<Rightarrow> store \<Rightarrow> store" where
  "st_set_totals cartTotal d ua s =
     s\<lparr>cart_objs := (cart_objs s)[ua := (cart_objs s ! ua)
          \<lparr>co_totalPrice := Some cartTotal, co_totalDiscount := Some d,
           co_finalPrice := Some (cartTotal - d)\<rparr>]\<rparr>"

definition st_stamp :: "coupon \<Rightarrow> rat \<Rightarrow> nat \<Rightarrow> store \<Rightarrow> store" where
  "st_stamp coupon d ua s =
     s\<lparr>cart_objs := (cart_objs s)[ua := (cart_objs s ! ua)
          \<lparr>co_appliedCoupon :=
             Some \<lparr>ac_couponId = coupon_id coupon, ac_code = code coupon,
                   ac_type = ctype coupon, ac_discountValue = d\<rparr>\<rparr>]\<rparr>"

definition applyCouponToCart_st :: "int \<Rightarrow> store \<Rightarrow> nat \<Rightarrow> nat option \<Rightarrow> js_error + (store \<times> nat \<times> discount_result)" where
  "applyCouponToCart_st now s couponRef cartRef =
     (let coupon = coupon_objs s ! couponRef;
          cart = map_option (load_cart s) cartRef
      in case calculateDiscount now coupon cart of
           Inl e \<Rightarrow> Inl e
         | Inr discountResult \<Rightarrow>
             if discount discountResult = 0
             then Inl (Error (Txt ''Cannot apply coupon: '' #
                      (case reason discountResult of
                         None \<Rightarrow> [Txt ''Invalid coupon'']
                       | Some r \<Rightarrow> r)))
             else
               (case cartRef of
                  None \<Rightarrow> Inl TypeError
                | Some a \<Rightarrow>
                    (let s1 = fst (json_copy s a);
                         updatedCart = snd (json_copy s a);
                         cartTotal = calculateCartTotal cart;
                         d = discount discountResult
                     in case ctype coupon of
                          CART_WISE \<Rightarrow>
                            Inr (st_stamp coupon d updatedCart
                                   (st_set_totals cartTotal d updatedCart s1),
                                 updatedCart, discountResult)
                        | PRODUCT_WISE \<Rightarrow>
                            (case itemDiscounts discountResult of
                               None \<Rightarrow> Inl TypeError
                             | Some ids \<Rightarrow>
                                 (case st_annotate_items st_apply_itemDiscount ids
                                         (co_items (cart_objs s1 ! updatedCart)) s1 of
                                    Inl e \<Rightarrow> Inl e
                                  | Inr s2 \<Rightarrow>
                                      Inr (st_stamp coupon d updatedCart
                                             (st_set_totals cartTotal d updatedCart s2),
                                           updatedCart, discountResult)))
                        | BXGY \<Rightarrow>
                            (case freeItems discountResult of
                               None \<Rightarrow> Inl TypeError
                             | Some fis \<Rightarrow>
                                 (case st_annotate_items st_apply_freeItem fis
                                         (co_items (cart_objs s1 ! updatedCart)) s1 of
                                    Inl e \<Rightarrow> Inl e
                                  | Inr s2 \<Rightarrow>
                                      Inr (st_stamp coupon d updatedCart
                                             (st_set_totals cartTotal d updatedCart s2),
                                           updatedCart, discountResult)))
                        | OTHER t \<Rightarrow>
                            Inr (st_stamp coupon d updatedCart s1, updatedCart,
                                 discountResult))))"

text \<open>
  Every object of the store \<open>s\<close> is in \<open>s'\<close>, at its address, with the value it had.
\<close>

definition unchanged :: "store \<Rightarrow> store \<Rightarrow> bool" where
  "unchanged s s' =
     (take (length (item_objs s)) (item_objs s') = item_objs s
      \<and> take (length (item_arrays s)) (item_arrays s') = item_arrays s
      \<and> take (length (cart_objs s)) (cart_objs s') = cart_objs s
      \<and> coupon_objs s' = coupon_objs s)"

text \<open>
  The cart object at \<open>ua\<close>, its array and the item objects of its lines are all objects
  that \<open>s\<close> does not have.
\<close>

definition fresh_cart :: "store \<Rightarrow> store \<Rightarrow> nat \<Rightarrow> bool" where
  "fresh_cart s s' ua =
     (length (cart_objs s) \<le> ua
      \<and> (case co_items (cart_objs s' ! ua) of
            None \<Rightarrow> True
          | Some r \<Rightarrow> length (item_arrays s) \<le> r
                      \<and> list_all (\<lambda>ia. length (item_objs s) \<le> ia) (item_arrays s' ! r)))"

text \<open>
  What the copy of the cart at \<open>a\<close> establishes, and what the rounds of the loops keep.
\<close>

definition copy_of :: "store \<Rightarrow> nat \<Rightarrow> store \<Rightarrow> nat \<Rightarrow> bool" where
  "copy_of s a s1 ua =
     (ua = length (cart_objs s) \<and> ua < length (cart_objs s1)
      \<and> unchanged s s1 \<and> load_cart s1 ua = load_cart s a
      \<and> length (item_objs s) \<le> length (item_objs s1)
      \<and> (case co_items (cart_objs s1 ! ua) of
            None \<Rightarrow> True
          | Some r \<Rightarrow> length (item_arrays s) \<le> r \<and> distinct (item_arrays s1 ! r)
                      \<and> (\<forall>ia\<in>set (item_arrays s1 ! r).
                            length (item_objs s) \<le> ia \<and> ia < length (item_objs s1))))"

definition within_copy :: "store \<Rightarrow> store \<Rightarrow> store \<Rightarrow> bool" where
  "within_copy s s1 s2 =
     (item_arrays s2 = item_arrays s1 \<and> cart_objs s2 = cart_objs s1
      \<and> coupon_objs s2 = coupon_objs s1
      \<and> length (item_objs s2) = length (item_objs s1)
      \<and> take (length (item_objs s)) (item_objs s2) = take (length (item_objs s)) (item_objs s1))"

definition fresh_array :: "store \<Rightarrow> store \<Rightarrow> nat \<Rightarrow> bool" where
  "fresh_array s s1 r =
     (distinct (item_arrays s1 ! r)
      \<and> (\<forall>ia\<in>set (item_arrays s1 ! r). length (item_objs s) \<le> ia \<and> ia < length (item_objs s1)))"

section \<open>Example coupons and carts\<close>

text \<open>
  A cart line and a cart as a request carries them.
\<close>

definition mk_item :: "nat \<Rightarrow> rat \<Rightarrow> rat \<Rightarrow> item" where
  "mk_item pid q p = \<lparr>productId = pid, quantity = q, price = p, item_totalDiscount = None,
     discountedPrice = None, freeQuantity = None\<rparr>"

definition mk_cart :: "item list \<Rightarrow> cart" where
  "mk_cart its = \<lparr>items = Some its, totalPrice = None, totalDiscount = None, finalPrice = None,
     appliedCoupon = None\<rparr>"

text \<open>
  The coupons of the examples: ten percent off carts of at least 1000, at most 500.
\<close>

definition save10 :: coupon where
  "save10 = \<lparr>coupon_id = 1, code = ''SAVE10'', ctype = CART_WISE, discountValue = 10,
     discountType = None, minCartValue = Some 1000, maxDiscount = Some 500,
     applicableProducts = Some [], buyProducts = Some [], getProducts = Some [],
     repetitionLimit = Some 1, expirationDate = None, isActive = True, usageLimit = None,
     currentUsage = 0\<rparr>"

definition base_coupon :: coupon where
  "base_coupon = \<lparr>coupon_id = 2, code = ''BASE'', ctype = CART_WISE, discountValue = 10,
     discountType = None, minCartValue = Some 0, maxDiscount = None,
     applicableProducts = Some [], buyProducts = Some [], getProducts = Some [],
     repetitionLimit = Some 1, expirationDate = None, isActive = True, usageLimit = None,
     currentUsage = 0\<rparr>"

definition prod20 :: coupon where
  "prod20 = base_coupon\<lparr>code := ''PROD20'', ctype := PRODUCT_WISE, discountValue := 20,
     discountType := Some PERCENTAGE, applicableProducts := Some [101]\<rparr>"

definition fixed50 :: coupon where
  "fixed50 = base_coupon\<lparr>code := ''FIXED50'', ctype := PRODUCT_WISE, discountValue := 50,
     discountType := Some FIXED_AMOUNT, applicableProducts := Some [101]\<rparr>"

definition buy2get1 :: coupon where
  "buy2get1 = base_coupon\<lparr>code := ''BUY2GET1'', ctype := BXGY, discountValue := 0,
     buyProducts := Some [\<lparr>req_productId = 101, req_quantity = 2\<rparr>,
                          \<lparr>req_productId = 102, req_quantity = 2\<rparr>],
     getProducts := Some [\<lparr>req_productId = 201, req_quantity = 1\<rparr>],
     repetitionLimit := Some 3\<rparr>"

definition buy2of101 :: coupon where
  "buy2of101 = base_coupon\<lparr>code := ''BUY2OF101'', ctype := BXGY, discountValue := 0,
     buyProducts := Some [\<lparr>req_productId = 101, req_quantity = 2\<rparr>],
     getProducts := Some [\<lparr>req_productId = 201, req_quantity = 1\<rparr>],
     repetitionLimit := Some 3\<rparr>"

definition double_get :: coupon where
  "double_get = base_coupon\<lparr>code := ''DOUBLE'', ctype := BXGY, discountValue := 0,
     buyProducts := Some [\<lparr>req_productId = 101, req_quantity = 1\<rparr>],
     getProducts := Some [\<lparr>req_productId = 201, req_quantity = 1\<rparr>,
                          \<lparr>req_productId = 201, req_quantity = 1\<rparr>]\<rparr>"

definition cap50 :: coupon where
  "cap50 = save10\<lparr>coupon_id := 3, code := ''CAP50'', maxDiscount := Some 50\<rparr>"

definition big_spender :: coupon where
  "big_spender = save10\<lparr>coupon_id := 4, code := ''BIG'', minCartValue := Some 5000\<rparr>"

definition empty_cart_object :: cart where
  "empty_cart_object = \<lparr>items = None, totalPrice = None, totalDiscount = None,
     finalPrice = None, appliedCoupon = None\<rparr>"

text \<open>
  A store with one cart of two lines and the coupon \<open>prod20\<close>; the store and the result
  after that coupon is applied to that cart.
\<close>

definition ex_store :: store where
  "ex_store = \<lparr>item_objs = [mk_item 101 3 500, mk_item 999 1 10], item_arrays = [[0, 1]],
     cart_objs = [\<lparr>co_items = Some 0, co_totalPrice = None, co_totalDiscount = None,
                   co_finalPrice = None, co_appliedCoupon = None\<rparr>],
     coupon_objs = [prod20]\<rparr>"

definition ex_store_after :: store where
  "ex_store_after = \<lparr>item_objs = [mk_item 101 3 500, mk_item 999 1 10,
       (mk_item 101 3 500)\<lparr>item_totalDiscount := Some 300, discountedPrice := Some 1200\<rparr>,
       mk_item 999 1 10],
     item_arrays = [[0, 1], [2, 3]],
     cart_objs = [\<lparr>co_items = Some 0, co_totalPrice = None, co_totalDiscount = None,
                   co_finalPrice = None, co_appliedCoupon = None\<rparr>,
                  \<lparr>co_items = Some 1, co_totalPrice = Some 1510, co_totalDiscount = Some 300,
                   co_finalPrice = Some 1210,
                   co_appliedCoupon = Some \<lparr>ac_couponId = 2, ac_code = ''PROD20'',
                     ac_type = PRODUCT_WISE, ac_discountValue = 300\<rparr>\<rparr>],
     coupon_objs = [prod20]\<rparr>"

definition ex_result :: discount_result where
  "ex_result = \<lparr>discount = 300, dr_applicable = None, reason = None, dr_cartTotal = None,
     dr_applicableTotal = Some 1500,
     itemDiscounts = Some [\<lparr>id_productId = 101, id_quantity = 3, id_itemDiscount = 300\<rparr>],
     dr_maxApplications = None, freeItems = None, dr_discountType = Some ''percentage''\<rparr>"

section \<open>Basic facts\<close>

text \<open>
  The defining equations, for the evaluation of the model on the examples.
\<close>

lemmas eligibility_defs =
  isCouponApplicable_def isApplicable_def isExpired_def isUsageLimitReached_def truthy_def
  calculateCartTotal_def cart_items_def checkCartWiseApplicability_def
  checkProductWiseApplicability_def checkBxGyApplicability_def build_cartProducts_def
  buy_step_def Let_def

lemmas discount_defs =
  calculateDiscount_def calculateCartWiseDiscount_def calculateProductWiseDiscount_def
  product_step_def productItemDiscount_def calculateBxGyDiscount_def bxgy_step_def

lemmas example_defs = mk_item_def mk_cart_def save10_def

lemma foldl_add_sum_list:
  "foldl (\<lambda>total x. total + f x) a xs = a + sum_list (map f xs)"
  by (induction xs arbitrary: a) (simp_all add: add.assoc)

lemma calculateCartTotal_items:
  "items c = Some its \<Longrightarrow>
   calculateCartTotal (Some c) = sum_list (map (\<lambda>i. price i * quantity i) its)"
  by (simp add: calculateCartTotal_def foldl_add_sum_list)

lemma cart_items_Some: "items c = Some its \<Longrightarrow> cart_items (Some c) = Inr its"
  by (simp add: cart_items_def)

lemma find_Some_set: "find p xs = Some x \<Longrightarrow> x \<in> set xs \<and> p x"
  by (induction xs) (auto split: if_splits)

lemma product_fold:
  "foldl (product_step coupon) (t, acc) xs =
     (t + sum_list (map (productItemDiscount coupon) xs),
      acc @ map (\<lambda>i. \<lparr>id_productId = productId i, id_quantity = quantity i,
                        id_itemDiscount = productItemDiscount coupon i\<rparr>) xs)"
  by (induction xs arbitrary: t acc) (simp_all add: product_step_def Let_def add.assoc)

subsection \<open>The applicability object has the shape of the coupon type\<close>

lemma checkProductWise_shape:
  "checkProductWiseApplicability coupon cart = Inr a \<Longrightarrow> applicable a \<Longrightarrow>
   \<exists>its tot. a = ProductWiseApplicable its tot"
  by (auto simp: checkProductWiseApplicability_def Let_def split: option.splits if_splits sum.splits)

lemma checkBxGy_shape:
  "checkBxGyApplicability coupon cart = Inr a \<Longrightarrow> applicable a \<Longrightarrow>
   \<exists>n m. a = BxGyApplicable n m"
  by (auto simp: checkBxGyApplicability_def Let_def split: option.splits if_splits sum.splits)

lemma isCouponApplicable_shape:
  assumes "isCouponApplicable now coupon cart = Inr a" "applicable a"
  shows "(case ctype coupon of
            CART_WISE \<Rightarrow> a = CartWiseApplicable (calculateCartTotal cart)
          | PRODUCT_WISE \<Rightarrow> (\<exists>its tot. a = ProductWiseApplicable its tot)
          | BXGY \<Rightarrow> (\<exists>n m. a = BxGyApplicable n m)
          | OTHER s \<Rightarrow> False)"
  using assms
  by (cases "ctype coupon")
     (auto simp: isCouponApplicable_def Let_def checkCartWiseApplicability_def
           dest: checkProductWise_shape checkBxGy_shape split: if_splits)

lemma isCouponApplicable_ProductWise:
  "isCouponApplicable now coupon cart = Inr (ProductWiseApplicable xs tot) \<Longrightarrow>
   checkProductWiseApplicability coupon cart = Inr (ProductWiseApplicable xs tot)"
  by (cases "ctype coupon")
     (auto simp: isCouponApplicable_def Let_def checkCartWiseApplicability_def
        dest: checkBxGy_shape split: if_splits)

lemma isCouponApplicable_BxGy:
  "isCouponApplicable now coupon cart = Inr (BxGyApplicable n m) \<Longrightarrow>
   checkBxGyApplicability coupon cart = Inr (BxGyApplicable n m)"
  by (cases "ctype coupon")
     (auto simp: isCouponApplicable_def Let_def checkCartWiseApplicability_def
        checkProductWiseApplicability_def split: if_splits option.splits sum.splits)

lemma checkProductWise_applicable:
  assumes "checkProductWiseApplicability coupon cart = Inr (ProductWiseApplicable xs tot)"
  shows "\<exists>aps its. applicableProducts coupon = Some aps \<and> cart_items cart = Inr its
           \<and> xs = filter (\<lambda>i. productId i \<in> set aps) its
           \<and> tot = sum_list (map (\<lambda>i. price i * quantity i) xs)"
  using assms
  by (auto simp: checkProductWiseApplicability_def Let_def foldl_add_sum_list
           split: option.splits if_splits sum.splits)

lemma checkBxGy_getProducts:
  "checkBxGyApplicability coupon cart = Inr (BxGyApplicable n m) \<Longrightarrow>
   \<exists>gets. getProducts coupon = Some gets \<and> gets \<noteq> [] \<and> (\<exists>its. cart_items cart = Inr its)"
  by (auto simp: checkBxGyApplicability_def Let_def split: option.splits if_splits sum.splits)

lemma checkBxGy_applications:
  assumes "checkBxGyApplicability coupon cart = Inr (BxGyApplicable n m)"
  shows "\<exists>bs its. buyProducts coupon = Some bs \<and> cart_items cart = Inr its
     \<and> n = min (foldl (buy_step (build_cartProducts its)) 0 bs)
               (if truthy (repetitionLimit coupon) then the (repetitionLimit coupon) else 1)"
  using assms
  by (auto simp: checkBxGyApplicability_def Let_def split: option.splits if_splits sum.splits)

subsection \<open>The cases of the discount calculation\<close>

lemma cart_wise_discount:
  assumes "ctype coupon = CART_WISE" "isCouponApplicable now coupon cart = Inr a" "applicable a"
  shows "calculateDiscount now coupon cart =
           Inr (calculateCartWiseDiscount coupon (calculateCartTotal cart))"
  using isCouponApplicable_shape[OF assms(2,3)] assms
  by (simp add: calculateDiscount_def)

lemma calculateDiscount_cases:
  assumes "calculateDiscount now coupon cart = Inr r"
  obtains
    (inapplicable) m where "isCouponApplicable now coupon cart = Inr (NotApplicable m)"
      "r = \<lparr>discount = 0, dr_applicable = Some False, reason = Some m, dr_cartTotal = None,
               dr_applicableTotal = None, itemDiscounts = None, dr_maxApplications = None,
               freeItems = None, dr_discountType = None\<rparr>"
  | (cart_wise) "ctype coupon = CART_WISE"
      "isCouponApplicable now coupon cart = Inr (CartWiseApplicable (calculateCartTotal cart))"
      "r = calculateCartWiseDiscount coupon (calculateCartTotal cart)"
  | (product_wise) its tot where "ctype coupon = PRODUCT_WISE"
      "isCouponApplicable now coupon cart = Inr (ProductWiseApplicable its tot)"
      "r = calculateProductWiseDiscount coupon its tot"
  | (bxgy) n m where "ctype coupon = BXGY"
      "isCouponApplicable now coupon cart = Inr (BxGyApplicable n m)"
      "calculateBxGyDiscount coupon cart n = Inr r"
proof -
  from assms obtain a where a: "isCouponApplicable now coupon cart = Inr a"
    by (auto simp: calculateDiscount_def split: sum.splits)
  show thesis
  proof (cases "applicable a")
    case False
    then obtain m where "a = NotApplicable m" by (cases a) auto
    with a assms inapplicable show thesis by (simp add: calculateDiscount_def)
  next
    case True
    from isCouponApplicable_shape[OF a True] a assms cart_wise product_wise bxgy
    show thesis
      by (cases "ctype coupon") (auto simp: calculateDiscount_def)
  qed
qed

lemma isCouponApplicable_total:
  "items c = Some its \<Longrightarrow> \<exists>a. isCouponApplicable now coupon (Some c) = Inr a"
  by (cases "ctype coupon")
     (auto simp: isCouponApplicable_def checkProductWiseApplicability_def
        checkBxGyApplicability_def cart_items_def Let_def split: option.splits)

lemma calculateDiscount_total:
  assumes "items c = Some its"
  shows "\<exists>r. calculateDiscount now coupon (Some c) = Inr r"
proof -
  from isCouponApplicable_total[OF assms] obtain a
    where a: "isCouponApplicable now coupon (Some c) = Inr a" by blast
  show ?thesis
  proof (cases "applicable a")
    case False
    then obtain m where "a = NotApplicable m" by (cases a) auto
    with a show ?thesis by (simp add: calculateDiscount_def)
  next
    case True
    show ?thesis
    proof (cases "ctype coupon")
      case BXGY
      with isCouponApplicable_shape[OF a True] obtain n m where nm: "a = BxGyApplicable n m"
        by auto
      from checkBxGy_getProducts[OF isCouponApplicable_BxGy[OF a[unfolded nm]]]
      show ?thesis using a nm BXGY
        by (auto simp: calculateDiscount_def calculateBxGyDiscount_def Let_def)
    qed (use isCouponApplicable_shape[OF a True] a in \<open>auto simp: calculateDiscount_def\<close>)
  qed
qed

lemma calculateBxGyDiscount_freeItems:
  "calculateBxGyDiscount coupon cart n = Inr r \<Longrightarrow> \<exists>fis. freeItems r = Some fis"
  by (auto simp: calculateBxGyDiscount_def Let_def split: option.splits if_splits sum.splits)

lemma other_type_zero:
  "ctype coupon = OTHER s \<Longrightarrow> calculateDiscount now coupon cart = Inr r \<Longrightarrow> discount r = 0"
  by (erule calculateDiscount_cases) auto

lemma inapplicable_discount:
  "isCouponApplicable now coupon cart = Inr (NotApplicable m) \<Longrightarrow>
   \<exists>r. calculateDiscount now coupon cart = Inr r \<and> discount r = 0 \<and> reason r = Some m
        \<and> dr_applicable r = Some False"
  by (simp add: calculateDiscount_def)

subsection \<open>The gate before the type-specific checks\<close>

lemma not_isApplicable:
  "\<not> isApplicable now coupon \<Longrightarrow>
   isCouponApplicable now coupon cart =
     Inr (NotApplicable [Txt ''Coupon is not active, expired, or usage limit reached''])"
  by (simp add: isCouponApplicable_def)

lemma below_minimum:
  assumes "isApplicable now coupon" "minCartValue coupon = Some m" "m \<noteq> 0"
    "calculateCartTotal cart < m"
  shows "isCouponApplicable now coupon cart =
           Inr (NotApplicable [Txt ''Cart total ('', Num (calculateCartTotal cart),
                 Txt '') is less than minimum required ('', Num m, Txt '')''])"
  using assms by (simp add: isCouponApplicable_def truthy_def Let_def)

lemma gate_rejects:
  assumes "\<not> isApplicable now coupon \<or> (\<exists>v. minCartValue coupon = Some v \<and> calculateCartTotal cart < v \<and> v \<noteq> 0)"
  shows "\<exists>m. isCouponApplicable now coupon cart = Inr (NotApplicable m)"
proof (cases "isApplicable now coupon")
  case False
  then show ?thesis using not_isApplicable by blast
next
  case True
  with assms obtain v where "minCartValue coupon = Some v" "calculateCartTotal cart < v" "v \<noteq> 0"
    by blast
  from below_minimum[OF True this(1,3,2)] show ?thesis by blast
qed

lemma cart_wise_passes:
  assumes "ctype coupon = CART_WISE" "isApplicable now coupon"
    "\<not> (\<exists>v. minCartValue coupon = Some v \<and> calculateCartTotal cart < v \<and> v \<noteq> 0)"
  shows "isCouponApplicable now coupon cart = Inr (CartWiseApplicable (calculateCartTotal cart))"
proof -
  from assms(3) have "\<not> (truthy (minCartValue coupon) \<and> calculateCartTotal cart < the (minCartValue coupon))"
    by (cases "minCartValue coupon") (auto simp: truthy_def)
  with assms(1,2) show ?thesis
    by (simp add: isCouponApplicable_def checkCartWiseApplicability_def Let_def)
qed

lemma no_items_total: "no_items cart \<Longrightarrow> calculateCartTotal cart = 0"
  by (auto simp: no_items_def calculateCartTotal_def split: option.splits)

lemma cart_wise_zero_total:
  "(\<forall>m. maxDiscount coupon = Some m \<longrightarrow> 0 \<le> m) \<Longrightarrow>
   discount (calculateCartWiseDiscount coupon 0) = 0"
  by (cases "maxDiscount coupon") (simp_all add: calculateCartWiseDiscount_def truthy_def Let_def)

subsection \<open>Applying\<close>

lemma annotate_items_Some:
  "\<exists>l. annotate_items step es (Some its) = Inr l"
  by (simp add: annotate_items_def)

lemma apply_zero:
  assumes "calculateDiscount now coupon cart = Inr r" "discount r = 0"
  shows "applyCouponToCart now coupon cart =
           Inl (Error (Txt ''Cannot apply coupon: '' #
                  (case reason r of None \<Rightarrow> [Txt ''Invalid coupon''] | Some m \<Rightarrow> m)))"
  using assms by (simp add: applyCouponToCart_def)

lemma apply_nonzero:
  assumes "calculateDiscount now coupon (Some c) = Inr r" "discount r \<noteq> 0" "items c = Some its"
  shows "\<exists>uc. applyCouponToCart now coupon (Some c) = Inr (uc, r)"
  using assms(1)
proof (cases rule: calculateDiscount_cases)
  case (inapplicable m)
  with assms(2) show ?thesis by simp
next
  case cart_wise
  with assms show ?thesis by (simp add: applyCouponToCart_def Let_def)
next
  case (product_wise its' tot)
  then have "\<exists>ids. itemDiscounts r = Some ids"
    by (simp add: calculateProductWiseDiscount_def Let_def)
  with product_wise assms annotate_items_Some show ?thesis
    by (auto simp: applyCouponToCart_def Let_def annotate_items_def)
next
  case (bxgy n m)
  from calculateBxGyDiscount_freeItems[OF bxgy(3)] bxgy assms show ?thesis
    by (auto simp: applyCouponToCart_def Let_def annotate_items_def)
qed

subsection \<open>Bounds\<close>

lemma productItemDiscount_bounds:
  assumes "0 \<le> discountValue coupon" "\<forall>m. maxDiscount coupon = Some m \<longrightarrow> 0 \<le> m"
    "0 < price i" "0 < quantity i"
  shows "0 \<le> productItemDiscount coupon i" "productItemDiscount coupon i \<le> price i * quantity i"
proof -
  have s: "0 \<le> price i * quantity i" using assms(3,4) by simp
  have raw: "0 \<le> (if discountValue coupon \<le> 100
               then (price i * quantity i * discountValue coupon) / 100
               else discountValue coupon * quantity i)"
    using assms(1,4) s by simp
  show "0 \<le> productItemDiscount coupon i"
    using raw s assms(2)
    by (cases "maxDiscount coupon") (simp_all add: productItemDiscount_def truthy_def Let_def)
  show "productItemDiscount coupon i \<le> price i * quantity i"
    by (simp add: productItemDiscount_def Let_def)
qed

lemma sum_list_bounds:
  fixes f g :: "'a \<Rightarrow> rat"
  assumes "\<forall>x\<in>set xs. 0 \<le> f x \<and> f x \<le> g x"
  shows "0 \<le> sum_list (map f xs) \<and> sum_list (map f xs) \<le> sum_list (map g xs)"
  using assms by (induction xs) (auto simp: add_mono)

lemma subtotal_nonneg:
  "\<forall>i\<in>set xs. 0 < quantity i \<and> 0 < price i \<Longrightarrow>
   0 \<le> sum_list (map (\<lambda>i. price i * quantity i) xs)"
  by (induction xs) simp_all

lemma buy_step_nonneg:
  assumes "0 \<le> m" "\<forall>p q. cp p = Some q \<longrightarrow> 0 \<le> q" "0 < req_quantity b"
  shows "0 \<le> buy_step cp m b"
proof -
  have "0 \<le> (case cp (req_productId b) of None \<Rightarrow> 0 | Some q \<Rightarrow> q)"
    using assms(2) by (cases "cp (req_productId b)") auto
  then have "0 \<le> (case cp (req_productId b) of None \<Rightarrow> 0 | Some q \<Rightarrow> q) / req_quantity b"
    using assms(3) by simp
  then have "(0::rat) \<le> of_int \<lfloor>(case cp (req_productId b) of None \<Rightarrow> 0 | Some q \<Rightarrow> q) / req_quantity b\<rfloor>"
    by simp
  with assms(1) show ?thesis by (simp add: buy_step_def Let_def)
qed

lemma buy_loop_nonneg:
  assumes "\<forall>p q. cp p = Some q \<longrightarrow> 0 \<le> q" "\<forall>b\<in>set bs. 0 < req_quantity b" "0 \<le> m"
  shows "0 \<le> foldl (buy_step cp) m bs"
  using assms(2,3)
proof (induction bs arbitrary: m)
  case Nil
  then show ?case by simp
next
  case (Cons b bs)
  from Cons.prems have "0 \<le> buy_step cp m b" using buy_step_nonneg[OF _ assms(1)] by simp
  with Cons show ?case by simp
qed

lemma build_cartProducts_gen:
  "foldl (\<lambda>m item. m(productId item \<mapsto> quantity item)) m0 its pid =
     (case find (\<lambda>i. productId i = pid) (rev its) of
        None \<Rightarrow> m0 pid | Some i \<Rightarrow> Some (quantity i))"
  by (induction its arbitrary: m0 rule: rev_induct) simp_all

lemma build_cartProducts_last:
  "build_cartProducts its pid = map_option quantity (find (\<lambda>i. productId i = pid) (rev its))"
  by (simp add: build_cartProducts_def build_cartProducts_gen split: option.splits)

lemma buy_step_last_line:
  "buy_step (build_cartProducts its) =
     (\<lambda>m r. let p = of_int \<lfloor>last_line_quantity its (req_productId r) / req_quantity r\<rfloor>
             in if m = 0 \<or> p < m then p else m)"
  by (intro ext)
     (simp add: buy_step_def build_cartProducts_last last_line_quantity_def Let_def
           split: option.splits)

lemma build_cartProducts_fun:
  "build_cartProducts its = (\<lambda>pid. map_option quantity (find (\<lambda>i. productId i = pid) (rev its)))"
  by (intro ext) (rule build_cartProducts_last)

lemma bxgy_fold:
  "foldl (bxgy_step its n) (t, acc) gets =
     (t + sum_list (map (\<lambda>g. case find (\<lambda>i. productId i = req_productId g) its of
                                None \<Rightarrow> 0
                              | Some ci \<Rightarrow> price ci * min (req_quantity g * n) (quantity ci)) gets),
      acc @ map (\<lambda>g. case find (\<lambda>i. productId i = req_productId g) its of
                        None \<Rightarrow> \<lparr>fi_productId = req_productId g,
                                 fi_freeQuantity = req_quantity g * n,
                                 fi_itemDiscount = 0, fi_note = Some ''Item not in cart''\<rparr>
                      | Some ci \<Rightarrow> \<lparr>fi_productId = req_productId g,
                                    fi_freeQuantity = min (req_quantity g * n) (quantity ci),
                                    fi_itemDiscount = price ci * min (req_quantity g * n) (quantity ci),
                                    fi_note = None\<rparr>) gets)"
proof (induction gets arbitrary: t acc)
  case Nil
  then show ?case by simp
next
  case (Cons g gets)
  have step: "bxgy_step its n (t, acc) g =
     (t + (case find (\<lambda>i. productId i = req_productId g) its of
             None \<Rightarrow> 0
           | Some ci \<Rightarrow> price ci * min (req_quantity g * n) (quantity ci)),
      acc @ [case find (\<lambda>i. productId i = req_productId g) its of
               None \<Rightarrow> \<lparr>fi_productId = req_productId g,
                        fi_freeQuantity = req_quantity g * n,
                        fi_itemDiscount = 0, fi_note = Some ''Item not in cart''\<rparr>
             | Some ci \<Rightarrow> \<lparr>fi_productId = req_productId g,
                           fi_freeQuantity = min (req_quantity g * n) (quantity ci),
                           fi_itemDiscount = price ci * min (req_quantity g * n) (quantity ci),
                           fi_note = None\<rparr>])"
    by (cases "find (\<lambda>i. productId i = req_productId g) its")
       (simp_all add: bxgy_step_def Let_def)
  show ?case by (simp add: step Cons.IH add.assoc)
qed

lemma cartProducts_nonneg:
  assumes "\<forall>i\<in>set its. 0 < quantity i"
  shows "build_cartProducts its p = Some q \<Longrightarrow> 0 \<le> q"
  using assms by (auto simp: build_cartProducts_last less_imp_le dest!: find_Some_set)

lemma bxgy_step_nonneg:
  assumes "\<forall>i\<in>set its. 0 < quantity i \<and> 0 < price i" "0 \<le> n" "0 \<le> req_quantity g"
  shows "fst st \<le> fst (bxgy_step its n st g)"
proof (cases "find (\<lambda>item. productId item = req_productId g) its")
  case None
  then show ?thesis by (simp add: bxgy_step_def)
next
  case (Some ci)
  then have "ci \<in> set its" by (auto dest: find_Some_set)
  with assms(1) have ci: "0 < quantity ci" "0 < price ci" by auto
  have "0 \<le> req_quantity g * n" using assms(2,3) by simp
  with ci have "0 \<le> price ci * min (req_quantity g * n) (quantity ci)" by simp
  with Some show ?thesis by (simp add: bxgy_step_def Let_def)
qed

lemma bxgy_loop_nonneg:
  assumes "\<forall>i\<in>set its. 0 < quantity i \<and> 0 < price i" "0 \<le> n" "\<forall>g\<in>set gs. 0 \<le> req_quantity g"
  shows "fst st \<le> fst (foldl (bxgy_step its n) st gs)"
  using assms(3)
proof (induction gs arbitrary: st)
  case Nil
  then show ?case by simp
next
  case (Cons g gs)
  have "fst st \<le> fst (bxgy_step its n st g)"
    using bxgy_step_nonneg[OF assms(1,2)] Cons.prems by simp
  also have "\<dots> \<le> fst (foldl (bxgy_step its n) (bxgy_step its n st g) gs)"
    using Cons by simp
  finally show ?case by simp
qed

lemma bxgy_applications_nonneg:
  assumes "schema_ok coupon" "\<forall>i\<in>set its. 0 < quantity i \<and> 0 < price i"
    "cart_items cart = Inr its"
    "checkBxGyApplicability coupon cart = Inr (BxGyApplicable n m)"
  shows "0 \<le> n"
proof -
  from checkBxGy_applications[OF assms(4)] assms(3) obtain bs
    where bs: "buyProducts coupon = Some bs"
      and n: "n = min (foldl (buy_step (build_cartProducts its)) 0 bs)
               (if truthy (repetitionLimit coupon) then the (repetitionLimit coupon) else 1)"
    by auto
  from assms(1) bs have q: "\<forall>b\<in>set bs. 0 < req_quantity b"
    by (auto simp: schema_ok_def list_all_iff)
  have cp: "\<forall>p q. build_cartProducts its p = Some q \<longrightarrow> 0 \<le> q"
    using cartProducts_nonneg assms(2) by blast
  have l: "0 \<le> foldl (buy_step (build_cartProducts its)) 0 bs"
    by (rule buy_loop_nonneg[OF cp q]) simp
  have "0 \<le> (if truthy (repetitionLimit coupon) then the (repetitionLimit coupon) else 1)"
    using assms(1) by (cases "repetitionLimit coupon") (auto simp: schema_ok_def truthy_def)
  with l n show ?thesis by simp
qed

subsection \<open>Ranking\<close>

lemma collect_applicable_entries:
  assumes "\<forall>c\<in>set coupons. \<exists>r. calculateDiscount now c cart = Inr r"
  shows "collect_applicable now cart coupons = Inr (positive_entries now cart coupons)"
  using assms by (induction coupons) (auto simp: positive_entries_def)

lemma insert_by_insort:
  "insert_by by_discount_desc x ys = insort_key (\<lambda>e. - ap_discount e) x ys"
  by (induction ys) (simp_all add: by_discount_desc_def)

lemma array_sort_sort_key:
  "array_sort by_discount_desc xs = sort_key (\<lambda>e. - ap_discount e) xs"
  by (induction xs) (simp_all add: array_sort_def insert_by_insort sort_key_def)

subsection \<open>The store\<close>

lemma heap_update_first_length [simp]:
  "length (heap_update_first p f refs objs) = length objs"
  by (simp add: heap_update_first_def split: option.splits)

lemma heap_update_first_outside:
  "i \<notin> set refs \<Longrightarrow> heap_update_first p f refs objs ! i = objs ! i"
proof (cases "find (\<lambda>ia. p (objs ! ia)) refs")
  case None
  then show ?thesis by (simp add: heap_update_first_def)
next
  case (Some ia)
  assume "i \<notin> set refs"
  moreover from Some have "ia \<in> set refs" by (auto dest: find_Some_set)
  ultimately have "ia \<noteq> i" by blast
  with Some show ?thesis by (simp add: heap_update_first_def)
qed

lemma heap_update_first_take:
  assumes "\<forall>ia\<in>set refs. n \<le> ia"
  shows "take n (heap_update_first p f refs objs) = take n objs"
  using assms
  by (auto simp: heap_update_first_def split: option.splits dest!: find_Some_set)

lemma heap_update_first_sim:
  assumes "distinct refs" "\<forall>ia\<in>set refs. ia < length objs"
  shows "map ((!) (heap_update_first p f refs objs)) refs = update_first p f (map ((!) objs) refs)"
  using assms
proof (induction refs)
  case Nil
  then show ?case by simp
next
  case (Cons a refs)
  show ?case
  proof (cases "p (objs ! a)")
    case True
    then have "heap_update_first p f (a # refs) objs = objs[a := f (objs ! a)]"
      by (simp add: heap_update_first_def)
    moreover have "map ((!) (objs[a := f (objs ! a)])) refs = map ((!) objs) refs"
    proof (intro map_cong refl)
      fix x assume "x \<in> set refs"
      with Cons.prems have "a \<noteq> x" by auto
      then show "objs[a := f (objs ! a)] ! x = objs ! x" by simp
    qed
    ultimately show ?thesis using True Cons.prems by simp
  next
    case False
    then have e: "heap_update_first p f (a # refs) objs = heap_update_first p f refs objs"
      by (simp add: heap_update_first_def)
    have "heap_update_first p f refs objs ! a = objs ! a"
      using Cons.prems by (intro heap_update_first_outside) simp
    with False e Cons show ?thesis by simp
  qed
qed

lemma map_nth_append_upt:
  "map ((!) (xs @ ys)) [length xs ..< length xs + length ys] = ys"
  by (rule nth_equalityI) (simp_all add: nth_append)

lemma json_copy_copy_of:
  assumes "cart_ref_ok s a"
  shows "copy_of s a (fst (json_copy s a)) (snd (json_copy s a))"
proof (cases "co_items (cart_objs s ! a)")
  case None
  then show ?thesis
    by (simp add: json_copy_def copy_of_def unchanged_def load_cart_def Let_def)
next
  case (Some r)
  let ?its = "load_items s r"
  let ?n = "length (item_objs s)"
  have "map ((!) (item_objs s @ ?its)) [?n ..< ?n + length ?its] = ?its"
    by (rule map_nth_append_upt)
  with Some assms show ?thesis
    by (simp add: json_copy_def copy_of_def unchanged_def load_cart_def Let_def
          load_items_def cart_ref_ok_def)
qed

lemma within_copy_refl: "within_copy s s1 s1"
  by (simp add: within_copy_def)

lemma update_objs_within:
  assumes "within_copy s s1 s2" "\<forall>ia\<in>set (item_arrays s1 ! r). length (item_objs s) \<le> ia"
  shows "within_copy s s1 (s2\<lparr>item_objs := heap_update_first p f (item_arrays s2 ! r) (item_objs s2)\<rparr>)"
  using assms by (simp add: within_copy_def heap_update_first_take)

lemma update_objs_load:
  assumes "within_copy s s1 s2" "distinct (item_arrays s1 ! r)"
    "\<forall>ia\<in>set (item_arrays s1 ! r). ia < length (item_objs s1)"
  shows "load_items (s2\<lparr>item_objs := heap_update_first p f (item_arrays s2 ! r) (item_objs s2)\<rparr>) r
           = update_first p f (load_items s2 r)"
proof -
  from assms have "distinct (item_arrays s2 ! r)"
    "\<forall>ia\<in>set (item_arrays s2 ! r). ia < length (item_objs s2)"
    by (simp_all add: within_copy_def)
  from heap_update_first_sim[OF this, of p f] show ?thesis
    by (simp add: load_items_def)
qed

lemma st_apply_itemDiscount_sim:
  assumes "within_copy s s1 s2" "fresh_array s s1 r"
  shows "within_copy s s1 (st_apply_itemDiscount r s2 e)
     \<and> load_items (st_apply_itemDiscount r s2 e) r = apply_itemDiscount (load_items s2 r) e"
  using update_objs_within[OF assms(1)] update_objs_load[OF assms(1)] assms(2)
  by (simp add: st_apply_itemDiscount_def apply_itemDiscount_def fresh_array_def)

lemma st_apply_freeItem_sim:
  assumes "within_copy s s1 s2" "fresh_array s s1 r"
  shows "within_copy s s1 (st_apply_freeItem r s2 e)
     \<and> load_items (st_apply_freeItem r s2 e) r = apply_freeItem (load_items s2 r) e"
  using update_objs_within[OF assms(1)] update_objs_load[OF assms(1)] assms
  by (simp add: st_apply_freeItem_def apply_freeItem_def fresh_array_def)

lemma fold_sim:
  assumes step: "\<And>s2 e. within_copy s s1 s2 \<Longrightarrow>
            within_copy s s1 (step r s2 e) \<and> load_items (step r s2 e) r = pstep (load_items s2 r) e"
    and "within_copy s s1 s2"
  shows "within_copy s s1 (foldl (step r) s2 es)
     \<and> load_items (foldl (step r) s2 es) r = foldl pstep (load_items s2 r) es"
  using assms(2)
proof (induction es arbitrary: s2)
  case Nil
  then show ?case by simp
next
  case (Cons e es)
  from step[OF Cons.prems, of e] Cons.IH[of "step r s2 e"] show ?case by simp
qed

lemma unchanged_load_cart:
  assumes "unchanged s s'" "cart_ref_ok s a"
  shows "load_cart s' a = load_cart s a"
proof -
  from assms(2) have a: "a < length (cart_objs s)" by (simp add: cart_ref_ok_def)
  have "cart_objs s' ! a = take (length (cart_objs s)) (cart_objs s') ! a"
    using a by simp
  with assms(1) have co: "cart_objs s' ! a = cart_objs s ! a" by (simp add: unchanged_def)
  have "load_items s' r = load_items s r" if r: "co_items (cart_objs s ! a) = Some r" for r
  proof -
    from assms(2) r have rl: "r < length (item_arrays s)"
      and il: "\<forall>ia\<in>set (item_arrays s ! r). ia < length (item_objs s)"
      by (simp_all add: cart_ref_ok_def list_all_iff)
    have "item_arrays s' ! r = take (length (item_arrays s)) (item_arrays s') ! r"
      using rl by simp
    with assms(1) have ar: "item_arrays s' ! r = item_arrays s ! r" by (simp add: unchanged_def)
    have "item_objs s' ! ia = item_objs s ! ia" if "ia \<in> set (item_arrays s ! r)" for ia
    proof -
      from il that have "ia < length (item_objs s)" by blast
      then have "item_objs s' ! ia = take (length (item_objs s)) (item_objs s') ! ia" by simp
      with assms(1) show ?thesis by (simp add: unchanged_def)
    qed
    then show ?thesis by (simp add: load_items_def ar)
  qed
  then show ?thesis
    by (cases "co_items (cart_objs s ! a)") (simp_all add: load_cart_def co Let_def)
qed

lemma within_copy_unchanged:
  assumes "copy_of s a s1 ua" "within_copy s s1 s2"
  shows "unchanged s s2"
  using assms by (simp add: copy_of_def within_copy_def unchanged_def)

lemma copy_of_fresh_array:
  "copy_of s a s1 ua \<Longrightarrow> co_items (cart_objs s1 ! ua) = Some r \<Longrightarrow> fresh_array s s1 r"
  by (simp add: copy_of_def fresh_array_def)

lemma copy_of_items:
  "copy_of s a s1 ua \<Longrightarrow>
   items (load_cart s a) = map_option (load_items s1) (co_items (cart_objs s1 ! ua))"
  by (auto simp: copy_of_def load_cart_def Let_def dest: arg_cong[where f = items])

lemma annotate_sim:
  assumes c: "copy_of s a s1 ua"
    and step: "\<And>r s2 e. fresh_array s s1 r \<Longrightarrow> within_copy s s1 s2 \<Longrightarrow>
            within_copy s s1 (step r s2 e) \<and> load_items (step r s2 e) r = pstep (load_items s2 r) e"
    and res: "st_annotate_items step es (co_items (cart_objs s1 ! ua)) s1 = Inr s2"
  shows "within_copy s s1 s2
     \<and> annotate_items pstep es (items (load_cart s a)) =
         Inr (map_option (load_items s2) (co_items (cart_objs s1 ! ua)))"
proof (cases "es = []")
  case True
  with res have "s2 = s1" by (simp add: st_annotate_items_def)
  with True copy_of_items[OF c] show ?thesis
    by (simp add: annotate_items_def within_copy_refl)
next
  case False
  with res obtain r where r: "co_items (cart_objs s1 ! ua) = Some r"
    and s2: "s2 = foldl (step r) s1 es"
    by (auto simp: st_annotate_items_def split: option.splits)
  note f = copy_of_fresh_array[OF c r]
  from fold_sim[of s s1 step r pstep s1 es, OF step[OF f] within_copy_refl]
  have "within_copy s s1 s2" "load_items s2 r = foldl pstep (load_items s1 r) es"
    by (simp_all add: s2)
  with False r copy_of_items[OF c] show ?thesis
    by (simp add: annotate_items_def)
qed

lemma finish_sim:
  fixes coupon :: coupon and d t :: rat
  assumes c: "copy_of s a s1 ua" and w: "within_copy s s1 s2"
  defines "s' \<equiv> st_stamp coupon d ua (st_set_totals t d ua s2)"
  shows "unchanged s s'" "fresh_cart s s' ua"
    "load_cart s' ua =
       stamp coupon d (set_totals t d
         ((load_cart s a)\<lparr>items := map_option (load_items s2) (co_items (cart_objs s1 ! ua))\<rparr>))"
proof -
  from c have ua: "ua = length (cart_objs s)" "ua < length (cart_objs s1)"
    by (simp_all add: copy_of_def)
  from w have eq: "cart_objs s2 = cart_objs s1" "item_arrays s2 = item_arrays s1"
    "length (item_objs s2) = length (item_objs s1)"
    by (simp_all add: within_copy_def)
  from within_copy_unchanged[OF c w] show "unchanged s s'"
    by (simp add: s'_def unchanged_def st_stamp_def st_set_totals_def ua(1))
  from c show "fresh_cart s s' ua"
    using ua eq
    by (auto simp: s'_def fresh_cart_def copy_of_def st_stamp_def st_set_totals_def list_all_iff
             split: option.splits)
  from c have l: "load_cart s1 ua = load_cart s a" unfolding copy_of_def by blast
  have "load_items s' = load_items s2"
    by (rule ext) (simp add: s'_def load_items_def st_stamp_def st_set_totals_def)
  with l[symmetric] ua eq show "load_cart s' ua =
       stamp coupon d (set_totals t d
         ((load_cart s a)\<lparr>items := map_option (load_items s2) (co_items (cart_objs s1 ! ua))\<rparr>))"
    by (simp add: s'_def load_cart_def st_stamp_def st_set_totals_def stamp_def set_totals_def
          Let_def)
qed

lemma applyCouponToCart_st_discount:
  assumes "applyCouponToCart_st now s cr (Some a) = Inr (s', ua, dr)"
  shows "calculateDiscount now (coupon_objs s ! cr) (Some (load_cart s a)) = Inr dr
     \<and> discount dr \<noteq> 0 \<and> ua = snd (json_copy s a)"
  using assms
  by (auto simp: applyCouponToCart_st_def Let_def
           split: sum.splits if_splits coupon_type.splits option.splits)

section \<open>The number of applications of a buy-and-get coupon\<close>

text \<open>
  Claim C1 fails on the code. The coupon \<open>buy2get1\<close> asks for two of product 101 and two of
  product 102; the cart has four of product 102 and none of product 101. The loop reads
  the 0 of product 101 as "no value yet" and takes the 2 of product 102:
  \<open>isCouponApplicable\<close> reports the coupon applicable with 2 applications, where the
  number the claim gives is 0.
\<close>

theorem bxgy_missing_buy_product:
  "(case isCouponApplicable 0 buy2get1 (Some (mk_cart [mk_item 102 4 50, mk_item 201 1 100])) of
      Inr a \<Rightarrow> applicable a \<and> maxApplications a = Some 2
    | Inl e \<Rightarrow> False)
   \<and> cartQuantity [mk_item 102 4 50, mk_item 201 1 100] 101 = 0
   \<and> spec_applications [mk_item 102 4 50, mk_item 201 1 100]
        [\<lparr>req_productId = 101, req_quantity = 2\<rparr>, \<lparr>req_productId = 102, req_quantity = 2\<rparr>] 3 = 0"
  by (simp add: eligibility_defs example_defs base_coupon_def buy2get1_def
        spec_applications_def cartQuantity_def)

section \<open>The product-wise discount\<close>

text \<open>
  Claim C2 as stated fails. The coupon \<open>fixed50\<close> has \<open>discountType\<close>
  \<open>FIXED_AMOUNT\<close> and \<open>discountValue\<close> 50; on one unit at price 500 the code gives the
  discount 250, fifty percent, where the claim gives 50.
\<close>

theorem product_wise_fixed_counterexample:
  "discountType fixed50 = Some FIXED_AMOUNT
   \<and> map_sum id discount (calculateDiscount 0 fixed50 (Some (mk_cart [mk_item 101 1 500]))) = Inr 250
   \<and> spec_productItemDiscount fixed50 (mk_item 101 1 500) = 50"
  by (simp add: eligibility_defs discount_defs example_defs base_coupon_def fixed50_def
        spec_productItemDiscount_def)

text \<open>
  Claim C2, amended. For an applicable \<open>PRODUCT_WISE\<close> coupon and any cart, the discount
  of each matched line is price times quantity times \<open>discountValue / 100\<close> when
  \<open>discountValue\<close> is at most 100 and \<open>discountValue\<close> times quantity otherwise
  (\<open>discountType\<close> is not read); a cap that is set bounds each line's discount
  separately; each line's discount is then bounded by the line's subtotal; the result's
  discount is the sum over the matched lines, and \<open>itemDiscounts\<close> lists product,
  quantity and discount of each matched line.
\<close>

theorem product_wise_discount_formula:
  assumes "ctype coupon = PRODUCT_WISE"
    and "isCouponApplicable now coupon cart = Inr a" and "applicable a"
  shows "\<exists>aps its r.
           applicableProducts coupon = Some aps \<and> cart_items cart = Inr its
         \<and> calculateDiscount now coupon cart = Inr r
         \<and> discount r =
             sum_list (map (\<lambda>i.
               min (let raw = (if discountValue coupon \<le> 100
                               then price i * quantity i * discountValue coupon / 100
                               else discountValue coupon * quantity i)
                    in case maxDiscount coupon of
                         None \<Rightarrow> raw
                       | Some m \<Rightarrow> if m = 0 then raw else min raw m)
                   (price i * quantity i))
               (filter (\<lambda>i. productId i \<in> set aps) its))
         \<and> itemDiscounts r =
             Some (map (\<lambda>i. \<lparr>id_productId = productId i, id_quantity = quantity i,
                     id_itemDiscount =
                       min (let raw = (if discountValue coupon \<le> 100
                                       then price i * quantity i * discountValue coupon / 100
                                       else discountValue coupon * quantity i)
                            in case maxDiscount coupon of
                                 None \<Rightarrow> raw
                               | Some m \<Rightarrow> if m = 0 then raw else min raw m)
                           (price i * quantity i)\<rparr>)
               (filter (\<lambda>i. productId i \<in> set aps) its))"
proof -
  from isCouponApplicable_shape[OF assms(2,3)] assms(1)
  obtain xs tot where a: "a = ProductWiseApplicable xs tot" by auto
  from checkProductWise_applicable[OF isCouponApplicable_ProductWise[OF assms(2)[unfolded a]]]
  obtain aps its where s: "applicableProducts coupon = Some aps" "cart_items cart = Inr its"
    "xs = filter (\<lambda>i. productId i \<in> set aps) its" by blast
  have r: "calculateDiscount now coupon cart = Inr (calculateProductWiseDiscount coupon xs tot)"
    using assms(1,2) a by (simp add: calculateDiscount_def)
  have d: "productItemDiscount coupon =
      (\<lambda>i. min (let raw = (if discountValue coupon \<le> 100
                               then price i * quantity i * discountValue coupon / 100
                               else discountValue coupon * quantity i)
                    in case maxDiscount coupon of
                         None \<Rightarrow> raw
                       | Some m \<Rightarrow> if m = 0 then raw else min raw m)
                   (price i * quantity i))"
    by (rule ext) (simp add: productItemDiscount_def truthy_def Let_def split: option.splits)
  have "discount (calculateProductWiseDiscount coupon xs tot) =
          sum_list (map (productItemDiscount coupon) xs)"
    "itemDiscounts (calculateProductWiseDiscount coupon xs tot) =
       Some (map (\<lambda>i. \<lparr>id_productId = productId i, id_quantity = quantity i,
                        id_itemDiscount = productItemDiscount coupon i\<rparr>) xs)"
    by (simp_all add: calculateProductWiseDiscount_def Let_def product_fold)
  with s r show ?thesis unfolding d by simp
qed

text \<open>
  The theorem at the coupon \<open>prod20\<close>, twenty percent on product 101, and a cart of three
  units of product 101 at 500 and one unit of product 999: the discount is 300.
\<close>

theorem product_wise_discount_formula_witness:
  "ctype prod20 = PRODUCT_WISE
   \<and> isCouponApplicable 0 prod20 (Some (mk_cart [mk_item 101 3 500, mk_item 999 1 10])) =
       Inr (ProductWiseApplicable [mk_item 101 3 500] 1500)
   \<and> applicable (ProductWiseApplicable [mk_item 101 3 500] 1500)
   \<and> map_sum id (\<lambda>r. (discount r, itemDiscounts r))
        (calculateDiscount 0 prod20 (Some (mk_cart [mk_item 101 3 500, mk_item 999 1 10]))) =
       Inr (300, Some [\<lparr>id_productId = 101, id_quantity = 3, id_itemDiscount = 300\<rparr>])"
proof -
  let ?cart = "Some (mk_cart [mk_item 101 3 500, mk_item 999 1 10])"
  have h1: "ctype prod20 = PRODUCT_WISE" by (simp add: prod20_def)
  have h2: "isCouponApplicable 0 prod20 ?cart = Inr (ProductWiseApplicable [mk_item 101 3 500] 1500)"
    by (simp add: isCouponApplicable_def isApplicable_def isExpired_def isUsageLimitReached_def
          truthy_def calculateCartTotal_def checkProductWiseApplicability_def cart_items_def
          example_defs base_coupon_def prod20_def)
  have h3: "applicable (ProductWiseApplicable [mk_item 101 3 500] 1500)" by simp
  have c: "applicableProducts prod20 = Some [101]"
    "cart_items ?cart = Inr [mk_item 101 3 500, mk_item 999 1 10]"
    "discountValue prod20 = 20" "maxDiscount prod20 = None"
    by (simp_all add: cart_items_def example_defs base_coupon_def prod20_def)
  from product_wise_discount_formula[OF h1 h2 h3] h1 h2 h3 show ?thesis
    by (auto simp: c) (simp_all add: mk_item_def)
qed

section \<open>The cart-wide discount\<close>



section \<open>Bounds of the discount\<close>

text \<open>
  Claim C4. For every coupon within the bounds of the coupon schema and every validated
  cart, \<open>calculateDiscount\<close> returns a discount that is not negative; for a \<open>CART_WISE\<close>
  coupon it is at most the cart total, and for a \<open>PRODUCT_WISE\<close> coupon at most the sum
  of the matched lines' subtotals.
\<close>

theorem discount_bounds:
  assumes "schema_ok coupon" and "validateCart c"
  shows "\<exists>r. calculateDiscount now coupon (Some c) = Inr r
     \<and> 0 \<le> discount r
     \<and> (ctype coupon = CART_WISE \<longrightarrow> discount r \<le> calculateCartTotal (Some c))
     \<and> (ctype coupon = PRODUCT_WISE \<longrightarrow> discount r \<le> matched_subtotal coupon c)"
proof -
  from assms(2) obtain its where its: "items c = Some its"
    and pos: "\<forall>i\<in>set its. 0 < quantity i \<and> 0 < price i"
    by (auto simp: validateCart_def list_all_iff split: option.splits)
  from calculateDiscount_total[OF its] obtain r
    where r: "calculateDiscount now coupon (Some c) = Inr r" by blast
  have ci: "cart_items (Some c) = Inr its" by (rule cart_items_Some[OF its])
  have tot: "0 \<le> calculateCartTotal (Some c)"
    using subtotal_nonneg[OF pos] by (simp add: calculateCartTotal_items[OF its])
  have md: "\<forall>m. maxDiscount coupon = Some m \<longrightarrow> 0 \<le> m"
    and dv: "0 \<le> discountValue coupon"
    using assms(1) by (auto simp: schema_ok_def)
  have sub: "0 \<le> matched_subtotal coupon c"
    unfolding matched_subtotal_def its using pos by (intro subtotal_nonneg) simp
  from r have "0 \<le> discount r
     \<and> (ctype coupon = CART_WISE \<longrightarrow> discount r \<le> calculateCartTotal (Some c))
     \<and> (ctype coupon = PRODUCT_WISE \<longrightarrow> discount r \<le> matched_subtotal coupon c)"
  proof (cases rule: calculateDiscount_cases)
    case (inapplicable m)
    with tot sub show ?thesis by simp
  next
    case cart_wise
    have "0 \<le> discount (calculateCartWiseDiscount coupon (calculateCartTotal (Some c)))"
      using tot dv md
      by (cases "maxDiscount coupon") (simp_all add: calculateCartWiseDiscount_def truthy_def Let_def)
    moreover have "discount (calculateCartWiseDiscount coupon (calculateCartTotal (Some c)))
        \<le> calculateCartTotal (Some c)"
      by (simp add: calculateCartWiseDiscount_def Let_def)
    ultimately show ?thesis using cart_wise by simp
  next
    case (product_wise xs t)
    from checkProductWise_applicable[OF isCouponApplicable_ProductWise[OF product_wise(2)]] ci
    obtain aps where aps: "applicableProducts coupon = Some aps"
      "xs = filter (\<lambda>i. productId i \<in> set aps) its" by auto
    have "\<forall>i\<in>set xs. 0 \<le> productItemDiscount coupon i
             \<and> productItemDiscount coupon i \<le> price i * quantity i"
      using productItemDiscount_bounds[OF dv md] pos aps(2) by simp
    from sum_list_bounds[OF this] product_wise aps its show ?thesis
      by (simp add: calculateProductWiseDiscount_def Let_def product_fold matched_subtotal_def)
  next
    case (bxgy n m)
    note chk = isCouponApplicable_BxGy[OF bxgy(2)]
    from bxgy_applications_nonneg[OF assms(1) pos ci chk] have n: "0 \<le> n" .
    from checkBxGy_getProducts[OF chk] obtain gs where gs: "getProducts coupon = Some gs" by blast
    with assms(1) have gq: "\<forall>g\<in>set gs. 0 \<le> req_quantity g"
      by (auto simp: schema_ok_def list_all_iff)
    from bxgy_loop_nonneg[OF pos n gq, of "(0, [])"]
    have "0 \<le> fst (foldl (bxgy_step its n) (0, []) gs)" by simp
    with bxgy(1,3) gs ci show ?thesis
      by (auto simp: calculateBxGyDiscount_def Let_def split: if_splits)
  qed
  with r show ?thesis by blast
qed

text \<open>
  The theorem at the coupon \<open>save10\<close> and a cart of 2000.
\<close>

theorem discount_bounds_witness:
  "schema_ok save10 \<and> validateCart (mk_cart [mk_item 7 2 1000])
   \<and> map_sum id discount (calculateDiscount 0 save10 (Some (mk_cart [mk_item 7 2 1000]))) = Inr 200
   \<and> (0::rat) \<le> 200
   \<and> ctype save10 = CART_WISE
   \<and> (200::rat) \<le> calculateCartTotal (Some (mk_cart [mk_item 7 2 1000]))"
proof -
  have h1: "schema_ok save10" by (simp add: schema_ok_def save10_def)
  have h2: "validateCart (mk_cart [mk_item 7 2 1000])"
    by (simp add: validateCart_def example_defs)
  have t: "calculateCartTotal (Some (mk_cart [mk_item 7 2 1000])) = 2000"
    by (simp add: calculateCartTotal_def example_defs)
  have r: "calculateDiscount 0 save10 (Some (mk_cart [mk_item 7 2 1000])) =
             Inr (calculateCartWiseDiscount save10 2000)"
    using cart_wise_discount[of save10 0 "Some (mk_cart [mk_item 7 2 1000])" "CartWiseApplicable 2000"]
    by (simp add: isCouponApplicable_def isApplicable_def isExpired_def isUsageLimitReached_def
          truthy_def checkCartWiseApplicability_def calculateCartTotal_def example_defs)
  have d: "discount (calculateCartWiseDiscount save10 2000) = 200"
    by (simp add: calculateCartWiseDiscount_def truthy_def save10_def)
  have c: "ctype save10 = CART_WISE" by (simp add: save10_def)
  from discount_bounds[OF h1 h2, of 0] h1 h2 show ?thesis
    by (simp add: r d t c)
qed

section \<open>Errors of the cart mutator\<close>

text \<open>
  Claim C5. For every coupon and every cart with an \<^verbatim>\<open>items\<close> array,
  \<open>calculateDiscount\<close> returns a result, and \<open>applyCouponToCart\<close> throws the error
  \<^verbatim>\<open>'Cannot apply coupon: ' + reason\<close> when the discount of that result is 0 and
  returns an updated cart with that result otherwise. When the cart total is below a
  coupon's minimum cart value, the evaluation is inapplicable with a reason that contains
  both numbers, the discount is 0 with the same reason, and \<open>applyCouponToCart\<close> throws
  with that reason.
\<close>

theorem applyCouponToCart_error_iff:
  assumes "items c = Some its"
  shows "\<exists>r. calculateDiscount now coupon (Some c) = Inr r
     \<and> (discount r = 0 \<longrightarrow>
          applyCouponToCart now coupon (Some c) =
            Inl (Error (Txt ''Cannot apply coupon: '' #
                   (case reason r of None \<Rightarrow> [Txt ''Invalid coupon''] | Some m \<Rightarrow> m))))
     \<and> (discount r \<noteq> 0 \<longrightarrow> (\<exists>uc. applyCouponToCart now coupon (Some c) = Inr (uc, r)))
     \<and> (isApplicable now coupon \<longrightarrow> truthy (minCartValue coupon) \<longrightarrow>
          calculateCartTotal (Some c) < the (minCartValue coupon) \<longrightarrow>
          (\<exists>m. isCouponApplicable now coupon (Some c) = Inr (NotApplicable m)
             \<and> Num (calculateCartTotal (Some c)) \<in> set m
             \<and> Num (the (minCartValue coupon)) \<in> set m
             \<and> discount r = 0 \<and> reason r = Some m
             \<and> applyCouponToCart now coupon (Some c) =
                 Inl (Error (Txt ''Cannot apply coupon: '' # m))))"
proof -
  from calculateDiscount_total[OF assms] obtain r
    where r: "calculateDiscount now coupon (Some c) = Inr r" by blast
  have z: "discount r = 0 \<longrightarrow>
          applyCouponToCart now coupon (Some c) =
            Inl (Error (Txt ''Cannot apply coupon: '' #
                   (case reason r of None \<Rightarrow> [Txt ''Invalid coupon''] | Some m \<Rightarrow> m)))"
    using apply_zero[OF r] by blast
  have nz: "discount r \<noteq> 0 \<longrightarrow> (\<exists>uc. applyCouponToCart now coupon (Some c) = Inr (uc, r))"
    using apply_nonzero[OF r _ assms] by blast
  have b: "isApplicable now coupon \<longrightarrow> truthy (minCartValue coupon) \<longrightarrow>
          calculateCartTotal (Some c) < the (minCartValue coupon) \<longrightarrow>
          (\<exists>m. isCouponApplicable now coupon (Some c) = Inr (NotApplicable m)
             \<and> Num (calculateCartTotal (Some c)) \<in> set m
             \<and> Num (the (minCartValue coupon)) \<in> set m
             \<and> discount r = 0 \<and> reason r = Some m
             \<and> applyCouponToCart now coupon (Some c) =
                 Inl (Error (Txt ''Cannot apply coupon: '' # m)))"
  proof (intro impI)
    assume a: "isApplicable now coupon" "truthy (minCartValue coupon)"
      "calculateCartTotal (Some c) < the (minCartValue coupon)"
    then obtain v where v: "minCartValue coupon = Some v" "v \<noteq> 0"
      by (auto simp: truthy_def split: option.splits)
    note bm = below_minimum[OF a(1) v a(3)[unfolded v option.sel]]
    from r bm have rr: "discount r = 0" "reason r = Some [Txt ''Cart total ('', Num (calculateCartTotal (Some c)),
                 Txt '') is less than minimum required ('', Num v, Txt '')'']"
      by (auto simp: calculateDiscount_def)
    from apply_zero[OF r rr(1)] rr bm v
    show "\<exists>m. isCouponApplicable now coupon (Some c) = Inr (NotApplicable m)
             \<and> Num (calculateCartTotal (Some c)) \<in> set m
             \<and> Num (the (minCartValue coupon)) \<in> set m
             \<and> discount r = 0 \<and> reason r = Some m
             \<and> applyCouponToCart now coupon (Some c) =
                 Inl (Error (Txt ''Cannot apply coupon: '' # m))"
      by simp
  qed
  from r z nz b show ?thesis by blast
qed

text \<open>
  The theorem at the coupon \<open>save10\<close>, whose minimum cart value is 1000, and a cart of 500.
\<close>

theorem applyCouponToCart_error_iff_witness:
  "items (mk_cart [mk_item 7 1 500]) = Some [mk_item 7 1 500]
   \<and> isCouponApplicable 0 save10 (Some (mk_cart [mk_item 7 1 500])) =
       Inr (NotApplicable [Txt ''Cart total ('', Num 500,
              Txt '') is less than minimum required ('', Num 1000, Txt '')''])
   \<and> map_sum id (\<lambda>r. (discount r, reason r))
        (calculateDiscount 0 save10 (Some (mk_cart [mk_item 7 1 500]))) =
       Inr (0, Some [Txt ''Cart total ('', Num 500,
              Txt '') is less than minimum required ('', Num 1000, Txt '')''])
   \<and> applyCouponToCart 0 save10 (Some (mk_cart [mk_item 7 1 500])) =
       Inl (Error [Txt ''Cannot apply coupon: '', Txt ''Cart total ('', Num 500,
              Txt '') is less than minimum required ('', Num 1000, Txt '')''])"
proof -
  let ?c = "mk_cart [mk_item 7 1 500]"
  have h: "items ?c = Some [mk_item 7 1 500]" by (simp add: mk_cart_def)
  have a: "isApplicable 0 save10" "truthy (minCartValue save10)"
    by (simp_all add: isApplicable_def isExpired_def isUsageLimitReached_def truthy_def save10_def)
  have t: "calculateCartTotal (Some ?c) = 500" "the (minCartValue save10) = 1000"
    by (simp_all add: calculateCartTotal_def example_defs)
  have e: "isCouponApplicable 0 save10 (Some ?c) =
       Inr (NotApplicable [Txt ''Cart total ('', Num 500,
              Txt '') is less than minimum required ('', Num 1000, Txt '')''])"
    using below_minimum[of 0 save10 1000 "Some ?c"] a t by (simp add: save10_def)
  from applyCouponToCart_error_iff[OF h, of 0 save10] a t h e show ?thesis
    by auto
qed

section \<open>Carts without items\<close>

text \<open>
  Claim C6 as stated fails. Against \<^verbatim>\<open>null\<close>, a cart-wide coupon with no minimum is
  reported applicable, and a product-wise coupon raises a \<^verbatim>\<open>TypeError\<close>; so does a
  buy-and-get coupon against a cart object without \<^verbatim>\<open>items\<close>.
\<close>

theorem malformed_cart_counterexample:
  "isCouponApplicable 0 base_coupon None = Inr (CartWiseApplicable 0)
   \<and> isCouponApplicable 0 prod20 None = Inl TypeError
   \<and> calculateDiscount 0 prod20 None = Inl TypeError
   \<and> isCouponApplicable 0 buy2get1 (Some empty_cart_object) = Inl TypeError
   \<and> calculateDiscount 0 buy2get1 (Some empty_cart_object) = Inl TypeError"
  by (simp add: eligibility_defs discount_defs example_defs base_coupon_def prod20_def
        buy2get1_def empty_cart_object_def)

text \<open>
  Claim C6, amended. For a cart that is \<^verbatim>\<open>null\<close> or has no \<^verbatim>\<open>items\<close> array
  the cart total is 0. A coupon that fails the activity, expiry and usage check, or has
  a positive minimum cart value, evaluates to an inapplicable result with a reason and
  discount 0, as data. A \<open>CART_WISE\<close> coupon that passes that check and has no positive
  minimum evaluates to an applicable result with cart total 0, and its discount is 0
  when its cap is not negative.
\<close>

theorem malformed_cart_as_data:
  assumes "no_items cart"
  shows "calculateCartTotal cart = 0
     \<and> ((\<not> isApplicable now coupon \<or> (\<exists>v. minCartValue coupon = Some v \<and> 0 < v)) \<longrightarrow>
          (\<exists>m r. isCouponApplicable now coupon cart = Inr (NotApplicable m)
             \<and> calculateDiscount now coupon cart = Inr r \<and> discount r = 0 \<and> reason r = Some m))
     \<and> (ctype coupon = CART_WISE \<longrightarrow> isApplicable now coupon \<longrightarrow>
        \<not> (\<exists>v. minCartValue coupon = Some v \<and> 0 < v) \<longrightarrow>
          (\<exists>r. isCouponApplicable now coupon cart = Inr (CartWiseApplicable 0)
             \<and> calculateDiscount now coupon cart = Inr r
             \<and> ((\<forall>m. maxDiscount coupon = Some m \<longrightarrow> 0 \<le> m) \<longrightarrow> discount r = 0)))"
proof -
  note t = no_items_total[OF assms]
  have p2: "(\<not> isApplicable now coupon \<or> (\<exists>v. minCartValue coupon = Some v \<and> 0 < v)) \<longrightarrow>
          (\<exists>m r. isCouponApplicable now coupon cart = Inr (NotApplicable m)
             \<and> calculateDiscount now coupon cart = Inr r \<and> discount r = 0 \<and> reason r = Some m)"
  proof
    assume "\<not> isApplicable now coupon \<or> (\<exists>v. minCartValue coupon = Some v \<and> 0 < v)"
    then have "\<not> isApplicable now coupon \<or>
       (\<exists>v. minCartValue coupon = Some v \<and> calculateCartTotal cart < v \<and> v \<noteq> 0)"
      by (auto simp: t)
    from gate_rejects[OF this] obtain m
      where "isCouponApplicable now coupon cart = Inr (NotApplicable m)" by blast
    with inapplicable_discount[OF this]
    show "\<exists>m r. isCouponApplicable now coupon cart = Inr (NotApplicable m)
             \<and> calculateDiscount now coupon cart = Inr r \<and> discount r = 0 \<and> reason r = Some m"
      by blast
  qed
  have p3: "ctype coupon = CART_WISE \<longrightarrow> isApplicable now coupon \<longrightarrow>
        \<not> (\<exists>v. minCartValue coupon = Some v \<and> 0 < v) \<longrightarrow>
          (\<exists>r. isCouponApplicable now coupon cart = Inr (CartWiseApplicable 0)
             \<and> calculateDiscount now coupon cart = Inr r
             \<and> ((\<forall>m. maxDiscount coupon = Some m \<longrightarrow> 0 \<le> m) \<longrightarrow> discount r = 0))"
  proof (intro impI)
    assume cw: "ctype coupon = CART_WISE" and ok: "isApplicable now coupon"
      and nm: "\<not> (\<exists>v. minCartValue coupon = Some v \<and> 0 < v)"
    from nm have "\<not> (\<exists>v. minCartValue coupon = Some v \<and> calculateCartTotal cart < v \<and> v \<noteq> 0)"
      by (simp add: t)
    from cart_wise_passes[OF cw ok this]
    have a: "isCouponApplicable now coupon cart = Inr (CartWiseApplicable 0)" by (simp add: t)
    then have r: "calculateDiscount now coupon cart = Inr (calculateCartWiseDiscount coupon 0)"
      using cw by (simp add: calculateDiscount_def)
    from a r cart_wise_zero_total
    show "\<exists>r. isCouponApplicable now coupon cart = Inr (CartWiseApplicable 0)
             \<and> calculateDiscount now coupon cart = Inr r
             \<and> ((\<forall>m. maxDiscount coupon = Some m \<longrightarrow> 0 \<le> m) \<longrightarrow> discount r = 0)"
      by simp
  qed
  from t p2 p3 show ?thesis by blast
qed

text \<open>
  The theorem at \<^verbatim>\<open>null\<close>, for the coupon \<open>save10\<close> with minimum 1000 and for the
  cart-wide coupon \<open>base_coupon\<close> with minimum 0.
\<close>

theorem malformed_cart_as_data_witness:
  "no_items None
   \<and> calculateCartTotal None = 0
   \<and> isCouponApplicable 0 save10 None =
       Inr (NotApplicable [Txt ''Cart total ('', Num 0,
              Txt '') is less than minimum required ('', Num 1000, Txt '')''])
   \<and> map_sum id discount (calculateDiscount 0 save10 None) = Inr 0
   \<and> ctype base_coupon = CART_WISE
   \<and> isCouponApplicable 0 base_coupon None = Inr (CartWiseApplicable 0)
   \<and> map_sum id discount (calculateDiscount 0 base_coupon None) = Inr 0"
proof -
  have h: "no_items None" by (simp add: no_items_def)
  have a: "minCartValue save10 = Some 1000" by (simp add: save10_def)
  have b: "ctype base_coupon = CART_WISE" "isApplicable 0 base_coupon"
    "minCartValue base_coupon = Some 0" "maxDiscount base_coupon = None"
    by (simp_all add: base_coupon_def isApplicable_def isExpired_def isUsageLimitReached_def)
  have e: "isCouponApplicable 0 save10 None =
       Inr (NotApplicable [Txt ''Cart total ('', Num 0,
              Txt '') is less than minimum required ('', Num 1000, Txt '')''])"
    by (simp add: isCouponApplicable_def isApplicable_def isExpired_def isUsageLimitReached_def
          truthy_def calculateCartTotal_def save10_def)
  from malformed_cart_as_data[OF h, of 0 save10] malformed_cart_as_data[OF h, of 0 base_coupon]
    h a b e
  show ?thesis by auto
qed

section \<open>Totals of the updated cart\<close>

text \<open>
  Claim C7. Whenever \<open>applyCouponToCart\<close> succeeds, the discount is not 0 and the
  updated cart has \<open>totalPrice\<close> the cart total, \<open>totalDiscount\<close> the computed discount
  and \<open>finalPrice\<close> their difference; the difference is not bounded below by zero.
\<close>

theorem applyCouponToCart_totals:
  assumes "applyCouponToCart now coupon cart = Inr (updatedCart, r)"
  shows "calculateDiscount now coupon cart = Inr r \<and> discount r \<noteq> 0
     \<and> totalPrice updatedCart = Some (calculateCartTotal cart)
     \<and> totalDiscount updatedCart = Some (discount r)
     \<and> finalPrice updatedCart = Some (calculateCartTotal cart - discount r)"
proof -
  from assms obtain r' where r': "calculateDiscount now coupon cart = Inr r'"
    by (auto simp: applyCouponToCart_def split: sum.splits)
  with assms have nz: "discount r' \<noteq> 0" and rr: "r' = r"
    by (auto simp: applyCouponToCart_def Let_def split: if_splits option.splits coupon_type.splits sum.splits)
  have "\<And>s. ctype coupon \<noteq> OTHER s" using other_type_zero[OF _ r'] nz by blast
  with assms r' nz rr show ?thesis
    by (auto simp: applyCouponToCart_def Let_def set_totals_def stamp_def
             split: if_splits option.splits coupon_type.splits sum.splits)
qed

text \<open>
  The theorem at the coupon \<open>save10\<close> and a cart of 2000: the final price is 1800.
  The coupon \<open>double_get\<close> lists its get-product twice; on a cart of 101 its discount
  is 200 and the final price is \<open>- 99\<close>.
\<close>

theorem applyCouponToCart_totals_witness:
  "applyCouponToCart 0 save10 (Some (mk_cart [mk_item 7 2 1000])) =
     Inr (stamp save10 200 (set_totals 2000 200 (mk_cart [mk_item 7 2 1000])),
          calculateCartWiseDiscount save10 2000)
   \<and> discount (calculateCartWiseDiscount save10 2000) = 200
   \<and> totalPrice (stamp save10 200 (set_totals 2000 200 (mk_cart [mk_item 7 2 1000]))) = Some 2000
   \<and> totalDiscount (stamp save10 200 (set_totals 2000 200 (mk_cart [mk_item 7 2 1000]))) = Some 200
   \<and> finalPrice (stamp save10 200 (set_totals 2000 200 (mk_cart [mk_item 7 2 1000]))) = Some 1800
   \<and> map_sum id (\<lambda>p. (totalPrice (fst p), totalDiscount (fst p), finalPrice (fst p)))
        (applyCouponToCart 0 double_get (Some (mk_cart [mk_item 101 1 1, mk_item 201 1 100]))) =
       Inr (Some 101, Some 200, Some (- 99))"
proof -
  have n: "map_sum id (\<lambda>p. (totalPrice (fst p), totalDiscount (fst p), finalPrice (fst p)))
        (applyCouponToCart 0 double_get (Some (mk_cart [mk_item 101 1 1, mk_item 201 1 100]))) =
       Inr (Some 101, Some 200, Some (- 99))"
    by (simp add: eligibility_defs discount_defs applyCouponToCart_def annotate_items_def
          apply_freeItem_def add_item_discount_def set_totals_def stamp_def example_defs
          base_coupon_def double_get_def)
  have d: "discount (calculateCartWiseDiscount save10 2000) = 200"
    by (simp add: calculateCartWiseDiscount_def truthy_def save10_def)
  have t: "calculateCartTotal (Some (mk_cart [mk_item 7 2 1000])) = 2000"
    by (simp add: calculateCartTotal_def example_defs)
  have r: "calculateDiscount 0 save10 (Some (mk_cart [mk_item 7 2 1000])) =
             Inr (calculateCartWiseDiscount save10 2000)"
    using cart_wise_discount[of save10 0 "Some (mk_cart [mk_item 7 2 1000])" "CartWiseApplicable 2000"]
    by (simp add: isCouponApplicable_def isApplicable_def isExpired_def isUsageLimitReached_def
          truthy_def checkCartWiseApplicability_def calculateCartTotal_def example_defs)
  have e: "applyCouponToCart 0 save10 (Some (mk_cart [mk_item 7 2 1000])) =
     Inr (stamp save10 200 (set_totals 2000 200 (mk_cart [mk_item 7 2 1000])),
          calculateCartWiseDiscount save10 2000)"
    by (simp add: applyCouponToCart_def r d t) (simp add: save10_def)
  from applyCouponToCart_totals[OF e] e d t n show ?thesis by simp
qed

section \<open>The inputs of the cart mutator are not written\<close>

text \<open>
  Claim C8. Whenever \<open>applyCouponToCart\<close> succeeds on a cart of the store, every object
  the store had is unchanged: the caller's cart reads as before, and so does the coupon,
  its \<open>currentUsage\<close> included. The updated cart is an object the store did not have,
  and so are its array and the item objects of its lines. Read as a value, the updated
  cart is the one the function on values returns.
\<close>

theorem applyCouponToCart_st_frame:
  assumes ok: "cart_ref_ok s a"
    and res: "applyCouponToCart_st now s cr (Some a) = Inr (s', ua, dr)"
  shows "unchanged s s'
     \<and> load_cart s' a = load_cart s a
     \<and> currentUsage (coupon_objs s' ! cr) = currentUsage (coupon_objs s ! cr)
     \<and> fresh_cart s s' ua
     \<and> applyCouponToCart now (coupon_objs s ! cr) (Some (load_cart s a)) =
         Inr (load_cart s' ua, dr)"
proof -
  define coupon where "coupon = coupon_objs s ! cr"
  define c where "c = load_cart s a"
  define s1 where "s1 = fst (json_copy s a)"
  define t where "t = calculateCartTotal (Some c)"
  from applyCouponToCart_st_discount[OF res]
  have dr: "calculateDiscount now coupon (Some c) = Inr dr" and nz: "discount dr \<noteq> 0"
    and ua: "ua = snd (json_copy s a)"
    by (simp_all add: coupon_def c_def)
  from json_copy_copy_of[OF ok] have cp: "copy_of s a s1 ua" by (simp add: s1_def ua)
  note its = copy_of_items[OF cp, folded c_def]
  have main: "unchanged s s' \<and> fresh_cart s s' ua
     \<and> applyCouponToCart now coupon (Some c) = Inr (load_cart s' ua, dr)"
  proof (cases "ctype coupon")
    case CART_WISE
    with res dr nz have s': "s' = st_stamp coupon (discount dr) ua (st_set_totals t (discount dr) ua s1)"
      by (simp add: applyCouponToCart_st_def Let_def coupon_def[symmetric] c_def[symmetric]
            s1_def ua t_def)
    from finish_sim[OF cp within_copy_refl, of coupon "discount dr" t] CART_WISE dr nz
    show ?thesis
      by (simp add: s' applyCouponToCart_def Let_def c_def[symmetric] t_def its[symmetric])
  next
    case PRODUCT_WISE
    with res dr nz obtain ids s2 where ids: "itemDiscounts dr = Some ids"
      and an: "st_annotate_items st_apply_itemDiscount ids (co_items (cart_objs s1 ! ua)) s1 = Inr s2"
      and s': "s' = st_stamp coupon (discount dr) ua (st_set_totals t (discount dr) ua s2)"
      by (auto simp: applyCouponToCart_st_def Let_def coupon_def[symmetric] c_def[symmetric]
            s1_def ua t_def split: option.splits sum.splits)
    from annotate_sim[OF cp _ an, of apply_itemDiscount] st_apply_itemDiscount_sim
    have w: "within_copy s s1 s2"
      and p: "annotate_items apply_itemDiscount ids (items c) =
                Inr (map_option (load_items s2) (co_items (cart_objs s1 ! ua)))"
      by (simp_all add: c_def)
    from finish_sim[OF cp w, of coupon "discount dr" t] PRODUCT_WISE dr nz ids p
    show ?thesis
      by (simp add: s' applyCouponToCart_def Let_def c_def[symmetric] t_def)
  next
    case BXGY
    with res dr nz obtain fis s2 where fis: "freeItems dr = Some fis"
      and an: "st_annotate_items st_apply_freeItem fis (co_items (cart_objs s1 ! ua)) s1 = Inr s2"
      and s': "s' = st_stamp coupon (discount dr) ua (st_set_totals t (discount dr) ua s2)"
      by (auto simp: applyCouponToCart_st_def Let_def coupon_def[symmetric] c_def[symmetric]
            s1_def ua t_def split: option.splits sum.splits)
    from annotate_sim[OF cp _ an, of apply_freeItem] st_apply_freeItem_sim
    have w: "within_copy s s1 s2"
      and p: "annotate_items apply_freeItem fis (items c) =
                Inr (map_option (load_items s2) (co_items (cart_objs s1 ! ua)))"
      by (simp_all add: c_def)
    from finish_sim[OF cp w, of coupon "discount dr" t] BXGY dr nz fis p
    show ?thesis
      by (simp add: s' applyCouponToCart_def Let_def c_def[symmetric] t_def)
  next
    case (OTHER x)
    from other_type_zero[OF OTHER dr] nz show ?thesis by simp
  qed
  then have u: "unchanged s s'" by simp
  from unchanged_load_cart[OF u ok] u main show ?thesis
    by (simp add: unchanged_def coupon_def c_def)
qed

text \<open>
  The theorem at the store \<open>ex_store\<close>: the copy has the addresses 2 and 3 for its lines,
  and the discount of 300 is written to the line at address 2.
\<close>

theorem applyCouponToCart_st_frame_witness:
  "cart_ref_ok ex_store 0
   \<and> applyCouponToCart_st 0 ex_store 0 (Some 0) = Inr (ex_store_after, 1, ex_result)
   \<and> unchanged ex_store ex_store_after
   \<and> load_cart ex_store_after 0 = load_cart ex_store 0
   \<and> currentUsage (coupon_objs ex_store_after ! 0) = currentUsage (coupon_objs ex_store ! 0)
   \<and> fresh_cart ex_store ex_store_after 1
   \<and> applyCouponToCart 0 prod20 (Some (mk_cart [mk_item 101 3 500, mk_item 999 1 10])) =
       Inr (load_cart ex_store_after 1, ex_result)"
proof -
  have ok: "cart_ref_ok ex_store 0" by (simp add: cart_ref_ok_def ex_store_def)
  have c: "load_cart ex_store 0 = mk_cart [mk_item 101 3 500, mk_item 999 1 10]"
    by (simp add: load_cart_def load_items_def ex_store_def mk_cart_def)
  have d: "calculateDiscount 0 prod20 (Some (mk_cart [mk_item 101 3 500, mk_item 999 1 10])) = Inr ex_result"
    by (simp add: eligibility_defs discount_defs example_defs base_coupon_def prod20_def
          ex_result_def)
  have j: "json_copy ex_store 0 =
     (\<lparr>item_objs = [mk_item 101 3 500, mk_item 999 1 10, mk_item 101 3 500, mk_item 999 1 10],
       item_arrays = [[0, 1], [2, 3]],
       cart_objs = [\<lparr>co_items = Some 0, co_totalPrice = None, co_totalDiscount = None,
                     co_finalPrice = None, co_appliedCoupon = None\<rparr>,
                    \<lparr>co_items = Some 1, co_totalPrice = None, co_totalDiscount = None,
                     co_finalPrice = None, co_appliedCoupon = None\<rparr>],
       coupon_objs = [prod20]\<rparr>, 1)"
    by (simp add: json_copy_def load_items_def ex_store_def Let_def upt_rec)
  have p: "coupon_objs ex_store ! 0 = prod20" by (simp add: ex_store_def)
  have e: "discount ex_result = 300"
    "itemDiscounts ex_result =
       Some [\<lparr>id_productId = 101, id_quantity = 3, id_itemDiscount = 300\<rparr>]"
    by (simp_all add: ex_result_def)
  have q: "ctype prod20 = PRODUCT_WISE" "coupon_id prod20 = 2" "code prod20 = ''PROD20''"
    by (simp_all add: prod20_def base_coupon_def)
  have t: "calculateCartTotal (Some (mk_cart [mk_item 101 3 500, mk_item 999 1 10])) = 1510"
    by (simp add: calculateCartTotal_def mk_cart_def mk_item_def)
  have i: "productId (mk_item n k m) = n" "quantity (mk_item n k m) = k"
    "price (mk_item n k m) = m" "item_totalDiscount (mk_item n k m) = None" for n k m
    by (simp_all add: mk_item_def)
  have res: "applyCouponToCart_st 0 ex_store 0 (Some 0) = Inr (ex_store_after, 1, ex_result)"
    by (simp add: applyCouponToCart_st_def p c d j e q t i
          st_annotate_items_def st_apply_itemDiscount_def heap_update_first_def
          st_set_totals_def st_stamp_def ex_store_after_def add_item_discount_def)
  from applyCouponToCart_st_frame[OF ok res] ok res show ?thesis
    by (simp add: p c)
qed

section \<open>Ranking of the applicable coupons\<close>

text \<open>
  Claim C9. For every list of coupons and every cart with an \<^verbatim>\<open>items\<close> array, the
  ranking holds the entries of the coupons whose discount is positive and no other, in
  descending order of discount, and entries of equal discount keep the order of the
  input.
\<close>

theorem ranking_sorted_stable:
  assumes "items c = Some its"
  shows "\<exists>res. getApplicableCoupons now (Some c) coupons = Inr res
     \<and> set res = set (positive_entries now (Some c) coupons)
     \<and> length res = length (positive_entries now (Some c) coupons)
     \<and> sorted_wrt (\<lambda>a b. ap_discount a \<ge> ap_discount b) res
     \<and> (\<forall>d. filter (\<lambda>e. ap_discount e = d) res =
             filter (\<lambda>e. ap_discount e = d) (positive_entries now (Some c) coupons))"
proof -
  let ?es = "positive_entries now (Some c) coupons"
  let ?k = "\<lambda>e. - ap_discount e"
  have "\<forall>x\<in>set coupons. \<exists>r. calculateDiscount now x (Some c) = Inr r"
    using calculateDiscount_total[OF assms] by blast
  then have res: "getApplicableCoupons now (Some c) coupons = Inr (sort_key ?k ?es)"
    by (simp add: getApplicableCoupons_def collect_applicable_entries array_sort_sort_key)
  have "sorted (map ?k (sort_key ?k ?es))" by (rule sorted_sort_key)
  then have s: "sorted_wrt (\<lambda>a b. ap_discount a \<ge> ap_discount b) (sort_key ?k ?es)"
    by (simp add: sorted_map)
  have st: "filter (\<lambda>e. ap_discount e = d) (sort_key ?k ?es) = filter (\<lambda>e. ap_discount e = d) ?es" for d
    using sort_key_stable[of ?k "- d" ?es] by simp
  from res s st show ?thesis by simp
qed

text \<open>
  The theorem at three coupons with discounts 50, 200 and 0: the ranking is 200, 50.
\<close>

theorem ranking_sorted_stable_witness:
  "items (mk_cart [mk_item 7 2 1000]) = Some [mk_item 7 2 1000]
   \<and> map (\<lambda>e. (ap_code e, ap_discount e))
        (positive_entries 0 (Some (mk_cart [mk_item 7 2 1000])) [cap50, save10, big_spender]) =
       [(''CAP50'', 50), (''SAVE10'', 200)]
   \<and> map_sum id (map (\<lambda>e. (ap_code e, ap_discount e)))
        (getApplicableCoupons 0 (Some (mk_cart [mk_item 7 2 1000])) [cap50, save10, big_spender]) =
       Inr [(''SAVE10'', 200), (''CAP50'', 50)]"
proof -
  let ?cart = "Some (mk_cart [mk_item 7 2 1000])"
  have h: "items (mk_cart [mk_item 7 2 1000]) = Some [mk_item 7 2 1000]"
    by (simp add: mk_cart_def)
  have t: "calculateCartTotal ?cart = 2000"
    by (simp add: calculateCartTotal_def example_defs)
  have r1: "calculateDiscount 0 cap50 ?cart = Inr (calculateCartWiseDiscount cap50 2000)"
    using cart_wise_discount[of cap50 0 ?cart "CartWiseApplicable 2000"]
    by (simp add: isCouponApplicable_def isApplicable_def isExpired_def isUsageLimitReached_def
          truthy_def checkCartWiseApplicability_def calculateCartTotal_def example_defs cap50_def big_spender_def)
  have r2: "calculateDiscount 0 save10 ?cart = Inr (calculateCartWiseDiscount save10 2000)"
    using cart_wise_discount[of save10 0 ?cart "CartWiseApplicable 2000"]
    by (simp add: isCouponApplicable_def isApplicable_def isExpired_def isUsageLimitReached_def
          truthy_def checkCartWiseApplicability_def calculateCartTotal_def example_defs cap50_def big_spender_def)
  have r3: "map_sum id discount (calculateDiscount 0 big_spender ?cart) = Inr 0"
    by (simp add: calculateDiscount_def isCouponApplicable_def isApplicable_def isExpired_def
          isUsageLimitReached_def truthy_def t big_spender_def save10_def)
  have d: "discount (calculateCartWiseDiscount cap50 2000) = 50"
    "discount (calculateCartWiseDiscount save10 2000) = 200"
    by (simp_all add: calculateCartWiseDiscount_def truthy_def cap50_def save10_def)
  have p: "map (\<lambda>e. (ap_code e, ap_discount e)) (positive_entries 0 ?cart [cap50, save10, big_spender]) =
       [(''CAP50'', 50), (''SAVE10'', 200)]"
    using r3 by (auto simp: positive_entries_def r1 r2 d entry_of_def split: sum.splits)
       (simp_all add: cap50_def save10_def)
  have g: "map_sum id (map (\<lambda>e. (ap_code e, ap_discount e)))
        (getApplicableCoupons 0 ?cart [cap50, save10, big_spender]) =
       Inr [(''SAVE10'', 200), (''CAP50'', 50)]"
    using r3 by (auto simp: getApplicableCoupons_def r1 r2 d entry_of_def array_sort_def
          by_discount_desc_def split: sum.splits)
       (simp_all add: cap50_def save10_def)
  from ranking_sorted_stable[OF h, of 0 "[cap50, save10, big_spender]"] h p g
  show ?thesis by simp
qed

section \<open>Duplicate cart lines\<close>

text \<open>
  Claim C10. For a buy-and-get coupon with buy and get requirements and a cart with an
  \<^verbatim>\<open>items\<close> array, \<open>checkBxGyApplicability\<close> computes the number of applications
  from the quantity of the last cart line of each buy product, not from a sum over the
  lines of that product, and returns the map that gives each product the quantity of its
  last line; and \<open>calculateBxGyDiscount\<close> computes the discount and the free items of
  each get-product from the first cart line of that product only.
\<close>

theorem duplicate_lines_last_and_first:
  assumes "items c = Some its"
    and "buyProducts coupon = Some buys" and "buys \<noteq> []"
    and "getProducts coupon = Some gets" and "gets \<noteq> []"
  shows "checkBxGyApplicability coupon (Some c) =
           (let n = min (foldl (\<lambda>m r.
                            let p = of_int \<lfloor>last_line_quantity its (req_productId r) / req_quantity r\<rfloor>
                            in if m = 0 \<or> p < m then p else m) 0 buys)
                        (if truthy (repetitionLimit coupon) then the (repetitionLimit coupon) else 1)
            in if n = 0 then Inr (NotApplicable [Txt ''Insufficient quantity of buy products''])
               else Inr (BxGyApplicable n
                      (\<lambda>pid. map_option quantity (find (\<lambda>i. productId i = pid) (rev its)))))
     \<and> map_sum id (\<lambda>r. (discount r, freeItems r)) (calculateBxGyDiscount coupon (Some c) n) =
           Inr (sum_list (map (\<lambda>g. case find (\<lambda>i. productId i = req_productId g) its of
                                      None \<Rightarrow> 0
                                    | Some ci \<Rightarrow> price ci * min (req_quantity g * n) (quantity ci)) gets),
                Some (map (\<lambda>g. case find (\<lambda>i. productId i = req_productId g) its of
                        None \<Rightarrow> \<lparr>fi_productId = req_productId g,
                                 fi_freeQuantity = req_quantity g * n,
                                 fi_itemDiscount = 0, fi_note = Some ''Item not in cart''\<rparr>
                      | Some ci \<Rightarrow> \<lparr>fi_productId = req_productId g,
                                    fi_freeQuantity = min (req_quantity g * n) (quantity ci),
                                    fi_itemDiscount = price ci * min (req_quantity g * n) (quantity ci),
                                    fi_note = None\<rparr>) gets))"
proof -
  have a: "checkBxGyApplicability coupon (Some c) =
           (let n = min (foldl (\<lambda>m r.
                            let p = of_int \<lfloor>last_line_quantity its (req_productId r) / req_quantity r\<rfloor>
                            in if m = 0 \<or> p < m then p else m) 0 buys)
                        (if truthy (repetitionLimit coupon) then the (repetitionLimit coupon) else 1)
            in if n = 0 then Inr (NotApplicable [Txt ''Insufficient quantity of buy products''])
               else Inr (BxGyApplicable n
                      (\<lambda>pid. map_option quantity (find (\<lambda>i. productId i = pid) (rev its)))))"
    using assms
    by (simp add: checkBxGyApplicability_def cart_items_def buy_step_last_line
          build_cartProducts_fun[symmetric] Let_def)
  have b: "calculateBxGyDiscount coupon (Some c) n =
      Inr \<lparr>discount = fst (foldl (bxgy_step its n) (0, []) gets), dr_applicable = None,
           reason = None, dr_cartTotal = None, dr_applicableTotal = None, itemDiscounts = None,
           dr_maxApplications = Some n,
           freeItems = Some (snd (foldl (bxgy_step its n) (0, []) gets)),
           dr_discountType = Some ''free_items''\<rparr>"
    using assms by (simp add: calculateBxGyDiscount_def cart_items_def Let_def)
  show ?thesis
    by (rule conjI[OF a]) (simp add: b bxgy_fold)
qed

text \<open>
  The theorem at the coupon \<open>buy2of101\<close>, two of product 101 for one of product 201.
  With lines of quantities 3 and 1 of product 101 the coupon is not applicable, and with
  lines of quantities 5 and 2 it applies once; with lines of quantities 1 and 5 of
  product 201 and three applications one unit is free.
\<close>

theorem duplicate_lines_last_and_first_witness:
  "items (mk_cart [mk_item 101 3 10, mk_item 101 1 10, mk_item 201 1 100, mk_item 201 5 100]) =
     Some [mk_item 101 3 10, mk_item 101 1 10, mk_item 201 1 100, mk_item 201 5 100]
   \<and> buyProducts buy2of101 = Some [\<lparr>req_productId = 101, req_quantity = 2\<rparr>]
   \<and> getProducts buy2of101 = Some [\<lparr>req_productId = 201, req_quantity = 1\<rparr>]
   \<and> checkBxGyApplicability buy2of101
        (Some (mk_cart [mk_item 101 3 10, mk_item 101 1 10, mk_item 201 1 100, mk_item 201 5 100])) =
       Inr (NotApplicable [Txt ''Insufficient quantity of buy products''])
   \<and> items (mk_cart [mk_item 101 5 10, mk_item 101 2 10]) =
       Some [mk_item 101 5 10, mk_item 101 2 10]
   \<and> map_sum id maxApplications
        (checkBxGyApplicability buy2of101 (Some (mk_cart [mk_item 101 5 10, mk_item 101 2 10]))) =
       Inr (Some 1)
   \<and> map_sum id (\<lambda>r. (discount r, freeItems r))
        (calculateBxGyDiscount buy2of101
          (Some (mk_cart [mk_item 101 3 10, mk_item 101 1 10, mk_item 201 1 100, mk_item 201 5 100])) 3) =
       Inr (100, Some [\<lparr>fi_productId = 201, fi_freeQuantity = 1, fi_itemDiscount = 100,
                        fi_note = None\<rparr>])"
proof -
  let ?its = "[mk_item 101 3 10, mk_item 101 1 10, mk_item 201 1 100, mk_item 201 5 100]"
  have h1: "items (mk_cart ?its) = Some ?its" by (simp add: mk_cart_def)
  have h2: "buyProducts buy2of101 = Some [\<lparr>req_productId = 101, req_quantity = 2\<rparr>]"
    by (simp add: buy2of101_def)
  have h3: "[\<lparr>req_productId = 101, req_quantity = 2\<rparr>] \<noteq> []" by simp
  have h4: "getProducts buy2of101 = Some [\<lparr>req_productId = 201, req_quantity = 1\<rparr>]"
    by (simp add: buy2of101_def)
  have h5: "[\<lparr>req_productId = 201, req_quantity = 1\<rparr>] \<noteq> []" by simp
  have q: "last_line_quantity ?its 101 = 1"
    by (simp add: last_line_quantity_def mk_item_def)
  have f: "find (\<lambda>i. productId i = 201) ?its = Some (mk_item 201 1 100)"
    by (simp add: mk_item_def)
  have r: "truthy (repetitionLimit buy2of101)" "the (repetitionLimit buy2of101) = 3"
    by (simp_all add: buy2of101_def truthy_def)
  have s: "price (mk_item 201 1 100) = 100" "quantity (mk_item 201 1 100) = 1"
    by (simp_all add: mk_item_def)
  have z: "\<lfloor>1 / 2 :: rat\<rfloor> = 0" by (rule floor_unique) simp_all
  have g: "req_productId \<lparr>req_productId = 201, req_quantity = 1\<rparr> = 201"
    "req_quantity \<lparr>req_productId = 201, req_quantity = 1\<rparr> = 1" by simp_all
  have a: "checkBxGyApplicability buy2of101 (Some (mk_cart ?its)) =
       Inr (NotApplicable [Txt ''Insufficient quantity of buy products''])"
    using duplicate_lines_last_and_first[OF h1 h2 h3 h4 h5, of 3]
    by (simp add: q r z Let_def)
  have b: "map_sum id (\<lambda>r. (discount r, freeItems r))
        (calculateBxGyDiscount buy2of101 (Some (mk_cart ?its)) 3) =
       Inr (100, Some [\<lparr>fi_productId = 201, fi_freeQuantity = 1, fi_itemDiscount = 100,
                        fi_note = None\<rparr>])"
    using duplicate_lines_last_and_first[OF h1 h2 h3 h4 h5, of 3]
    by (simp only: list.map sum_list.Cons sum_list.Nil g f option.case s) simp
  have k1: "items (mk_cart [mk_item 101 5 10, mk_item 101 2 10]) =
       Some [mk_item 101 5 10, mk_item 101 2 10]" by (simp add: mk_cart_def)
  have k2: "last_line_quantity [mk_item 101 5 10, mk_item 101 2 10] 101 = 2"
    by (simp add: last_line_quantity_def mk_item_def)
  have k: "map_sum id maxApplications
        (checkBxGyApplicability buy2of101 (Some (mk_cart [mk_item 101 5 10, mk_item 101 2 10]))) =
       Inr (Some 1)"
    using duplicate_lines_last_and_first[OF k1 h2 h3 h4 h5, of 3]
    by (simp add: k2 r Let_def)
  from h1 h2 h4 a b k1 k show ?thesis by simp
qed

end
